theory Spec2Isabelle
  imports Main "HOL-Library.Char_ord" "HOL-Library.List_Lexorder"
begin

section \<open>Python strings and integers\<close>

text \<open>
  A Python \<open>str\<close> is modelled as a \<open>string\<close>: every \<open>char\<close> stands for the code point
  of the same number, so the model covers the strings whose code points are below 256.
  \<open>isspace_char\<close> lists the code points below 256 for which Python's \<open>str.isspace\<close>
  holds; \<open>str.split()\<close> and \<open>str.strip()\<close> use the same set.
\<close>

definition isspace_char :: "char \<Rightarrow> bool" where
  "isspace_char c = (c \<in> set [CHR 0x09, CHR 0x0A, CHR 0x0B, CHR 0x0C, CHR 0x0D, CHR 0x1C,
     CHR 0x1D, CHR 0x1E, CHR 0x1F, CHR 0x20, CHR 0x85, CHR 0xA0])"

text \<open>\<open>s.isspace()\<close>: the string is not empty and all of it is whitespace.\<close>

definition isspace :: "string \<Rightarrow> bool" where
  "isspace s = (s \<noteq> [] \<and> list_all isspace_char s)"

text \<open>
  \<open>s.split()\<close>: the maximal runs of characters that are not whitespace, in order. The first
  argument of \<open>split_tokens\<close> is the token read so far.
\<close>

fun split_tokens :: "string \<Rightarrow> string \<Rightarrow> string list" where
  "split_tokens tok [] = (if tok = [] then [] else [tok])"
| "split_tokens tok (c # cs) =
     (if isspace_char c
      then (if tok = [] then split_tokens [] cs else tok # split_tokens [] cs)
      else split_tokens (tok @ [c]) cs)"

definition split_whitespace :: "string \<Rightarrow> string list" where
  "split_whitespace s = split_tokens [] s"

text \<open>\<open>s.split(sep)\<close> for a separator of one character: every occurrence splits.\<close>

fun split_on :: "char \<Rightarrow> string \<Rightarrow> string list" where
  "split_on sep [] = [[]]"
| "split_on sep (c # cs) =
     (if c = sep then [] # split_on sep cs
      else (case split_on sep cs of
              [] \<Rightarrow> [[c]]
            | t # ts \<Rightarrow> (c # t) # ts))"

text \<open>\<open>s.split(sep, 1)\<close>: only the first occurrence of the separator splits.\<close>

definition split_once :: "char \<Rightarrow> string \<Rightarrow> string list" where
  "split_once sep s =
     (if sep \<in> set s
      then [takeWhile (\<lambda>c. c \<noteq> sep) s, tl (dropWhile (\<lambda>c. c \<noteq> sep) s)]
      else [s])"

text \<open>\<open>s.strip(chars)\<close> removes the characters of \<open>chars\<close> from both ends; \<open>s.strip()\<close>
  removes whitespace from both ends.\<close>

definition strip_while :: "(char \<Rightarrow> bool) \<Rightarrow> string \<Rightarrow> string" where
  "strip_while P s = rev (dropWhile P (rev (dropWhile P s)))"

definition strip_chars :: "string \<Rightarrow> string \<Rightarrow> string" where
  "strip_chars chars s = strip_while (\<lambda>c. c \<in> set chars) s"

definition strip :: "string \<Rightarrow> string" where
  "strip s = strip_while isspace_char s"

text \<open>\<open>sep.join(xs)\<close>.\<close>

fun join :: "string \<Rightarrow> string list \<Rightarrow> string" where
  "join sep [] = []"
| "join sep [x] = x"
| "join sep (x # y # ys) = x @ sep @ join sep (y # ys)"

text \<open>
  \<open>s.upper()\<close> and \<open>s.lower()\<close> on code points below 256. The upper case of code point 223
  is the two letters SS. The upper cases of the code points 181 and 255 lie above 255; the
  model leaves these two unchanged.
\<close>

definition upper_char :: "char \<Rightarrow> string" where
  "upper_char c =
     (let n = (of_char c :: nat) in
      if (97 \<le> n \<and> n \<le> 122) \<or> (224 \<le> n \<and> n \<le> 254 \<and> n \<noteq> 247) then [char_of (n - 32)]
      else if n = 223 then ''SS''
      else [c])"

definition upper :: "string \<Rightarrow> string" where
  "upper s = concat (map upper_char s)"

definition lower_char :: "char \<Rightarrow> char" where
  "lower_char c =
     (let n = (of_char c :: nat) in
      if (65 \<le> n \<and> n \<le> 90) \<or> (192 \<le> n \<and> n \<le> 222 \<and> n \<noteq> 215) then char_of (n + 32)
      else c)"

definition lower :: "string \<Rightarrow> string" where
  "lower s = map lower_char s"

text \<open>
  \<open>int(text)\<close> in base ten: whitespace around the literal is dropped, then an optional sign,
  then decimal digits, where one underscore may stand between two digits. Anything else is
  the \<open>ValueError\<close>, here \<open>None\<close>. Python integers are unbounded, so the value is an
  \<open>int\<close>; but the interpreter (CPython from 3.11 on, with its default setting) also raises
  \<open>ValueError\<close> for a literal of more than \<open>int_max_str_digits\<close> digits, underscores
  not counted.
\<close>

definition int_max_str_digits :: nat where
  "int_max_str_digits = 4300"

definition is_digit :: "char \<Rightarrow> bool" where
  "is_digit c = (48 \<le> (of_char c :: nat) \<and> (of_char c :: nat) \<le> 57)"

definition digit_value :: "char \<Rightarrow> nat" where
  "digit_value c = of_char c - 48"

text \<open>\<open>digits_value acc s\<close> reads the rest of a literal after a digit; \<open>acc\<close> is the value read so far.\<close>

fun digits_value :: "nat \<Rightarrow> string \<Rightarrow> nat option" where
  "digits_value acc [] = Some acc"
| "digits_value acc (c # cs) =
     (if is_digit c then digits_value (10 * acc + digit_value c) cs
      else if c = CHR ''_'' then
        (case cs of
           [] \<Rightarrow> None
         | d # ds \<Rightarrow> if is_digit d then digits_value (10 * acc + digit_value d) ds else None)
      else None)"

definition unsigned_value :: "string \<Rightarrow> nat option" where
  "unsigned_value s =
     (case s of
        [] \<Rightarrow> None
      | c # cs \<Rightarrow>
          if is_digit c then
            (case digits_value (digit_value c) cs of
               None \<Rightarrow> None
             | Some v \<Rightarrow> if length (filter is_digit s) > int_max_str_digits then None else Some v)
          else None)"

definition py_int :: "string \<Rightarrow> int option" where
  "py_int text =
     (case strip text of
        [] \<Rightarrow> None
      | c # cs \<Rightarrow>
          if c = CHR ''-'' then map_option (\<lambda>n. - int n) (unsigned_value cs)
          else if c = CHR ''+'' then map_option int (unsigned_value cs)
          else map_option int (unsigned_value (c # cs)))"

text \<open>\<open>str(n)\<close> for an integer, also what \<open>'%s' % n\<close> prints. (The same interpreter
  raises \<open>ValueError\<close> when the text would have more than \<open>int_max_str_digits\<close> digits; the
  balances that the handlers print are taken to stay below that.)\<close>

definition digit_char :: "nat \<Rightarrow> char" where
  "digit_char n = char_of (48 + n)"

fun str_nat :: "nat \<Rightarrow> string" where
  "str_nat n = (if n < 10 then [digit_char n] else str_nat (n div 10) @ [digit_char (n mod 10)])"

definition str_int :: "int \<Rightarrow> string" where
  "str_int i = (if i < 0 then CHR ''-'' # str_nat (nat (- i)) else str_nat (nat i))"

section \<open>Authorization levels\<close>

text \<open>
  Modelled from the spec: the enumeration \<open>Authorization\<close> is imported from the accounting
  module, which is not part of the command module. The spec gives it as an ordered
  enumeration CITIZEN < ADMIN < DEVELOPER compared by rank; \<open>auth_value\<close> is the rank
  (\<open>.value\<close>), \<open>auth_name\<close> the member's name (\<open>.name\<close>) and \<open>Authorization_of_name\<close> the
  lookup by name (\<open>Authorization[name]\<close>, \<open>None\<close> for the \<open>KeyError\<close>).
\<close>

datatype Authorization = CITIZEN | ADMIN | DEVELOPER

fun auth_value :: "Authorization \<Rightarrow> int" where
  "auth_value CITIZEN = 0"
| "auth_value ADMIN = 1"
| "auth_value DEVELOPER = 2"

fun auth_name :: "Authorization \<Rightarrow> string" where
  "auth_name CITIZEN = ''CITIZEN''"
| "auth_name ADMIN = ''ADMIN''"
| "auth_name DEVELOPER = ''DEVELOPER''"

definition Authorization_of_name :: "string \<Rightarrow> Authorization option" where
  "Authorization_of_name name =
     (if name = ''CITIZEN'' then Some CITIZEN
      else if name = ''ADMIN'' then Some ADMIN
      else if name = ''DEVELOPER'' then Some DEVELOPER
      else None)"

section \<open>Command parsers\<close>

text \<open>
  Each parser returns \<open>None\<close> where the source returns \<open>None\<close>. The arity test followed by
  the unpacking of \<open>body\<close> is a match on a list of that length.
\<close>

definition parse_transfer_command :: "string \<Rightarrow> (int \<times> string) option" where
  "parse_transfer_command message =
     (case split_whitespace message of
        [_, amount_text, destination] \<Rightarrow>
          (case py_int amount_text of
             None \<Rightarrow> None
           | Some amount \<Rightarrow> Some (amount, destination))
      | _ \<Rightarrow> None)"

definition parse_admin_transfer_command :: "string \<Rightarrow> (string \<times> int \<times> string) option" where
  "parse_admin_transfer_command message =
     (case split_whitespace message of
        [_, amount_text, sender, destination] \<Rightarrow>
          (case py_int amount_text of
             None \<Rightarrow> None
           | Some amount \<Rightarrow> Some (sender, amount, destination))
      | _ \<Rightarrow> None)"

definition parse_authorization :: "string \<Rightarrow> (string \<times> Authorization) option" where
  "parse_authorization message =
     (case split_whitespace message of
        [_, beneficiary, auth_level] \<Rightarrow>
          (case Authorization_of_name (upper auth_level) of
             None \<Rightarrow> None
           | Some level \<Rightarrow> Some (beneficiary, level))
      | _ \<Rightarrow> None)"

definition parse_print_money :: "string \<Rightarrow> (int \<times> string) option" where
  "parse_print_money message =
     (case split_whitespace message of
        [_, amount_text, beneficiary] \<Rightarrow>
          (case py_int amount_text of
             None \<Rightarrow> None
           | Some amount \<Rightarrow> Some (amount, beneficiary))
      | _ \<Rightarrow> None)"

definition parse_admin_create_recurring_transfer ::
  "string \<Rightarrow> (int \<times> string \<times> string \<times> int) option" where
  "parse_admin_create_recurring_transfer message =
     (case split_whitespace message of
        [_, amount_text, sender, destination, tick_count_text] \<Rightarrow>
          (case py_int amount_text of
             None \<Rightarrow> None
           | Some amount \<Rightarrow>
               (case py_int tick_count_text of
                  None \<Rightarrow> None
                | Some tick_count \<Rightarrow> Some (amount, sender, destination, tick_count)))
      | _ \<Rightarrow> None)"

section \<open>The accounting server and the libraries\<close>

text \<open>
  The accounting server, its accounts and the cryptographic and base64 libraries are outside
  the command module, which only calls them. An account is what the module reads from an
  account object: \<open>get_authorization()\<close>, \<open>get_balance()\<close>, \<open>list_public_keys()\<close> and the
  identifier that \<open>server.get_account_id\<close> returns for it. Keys, digests and signatures are
  opaque byte strings.
\<close>

type_synonym ecc_key = string

record account =
  account_id :: string
  get_authorization :: Authorization
  get_balance :: int
  list_public_keys :: "ecc_key list"

text \<open>The calls by which the module asks the accounting server to decide or to change something.\<close>

datatype request =
    Open_account string
  | Add_public_key account ecc_key
  | Authorize account account Authorization
  | Can_transfer account account int
  | Transfer account account account int
  | Print_money account account int
  | Create_recurring_transfer account account account int int

text \<open>
  The server as one command sees it. \<open>accounts\<close> answers \<open>has_account\<close> and \<open>get_account\<close>,
  \<open>list_accounts\<close> is the sequence \<open>server.list_accounts()\<close> returns, and three functions
  stand for the answers of the accounting engine: whether a transfer is feasible, the proof
  a transfer returns (already printed with \<open>%s\<close>, \<open>None\<close> for no proof), and the identifier
  of a recurring transfer. What a request changes inside the engine is the engine's
  business: the model records every request in \<open>requests\<close>, in call order, and every
  signature verification attempt (key, digest, signature) in \<open>verifications\<close>. No command
  reads the server again after a request that changes it. Engine calls are taken to return.
\<close>

record server =
  accounts :: "string \<rightharpoonup> account"
  list_accounts :: "account list"
  can_transfer :: "account \<Rightarrow> account \<Rightarrow> int \<Rightarrow> bool"
  transfer_proof :: "account \<Rightarrow> account \<Rightarrow> account \<Rightarrow> int \<Rightarrow> string option"
  recurring_transfer_id :: "account \<Rightarrow> account \<Rightarrow> account \<Rightarrow> int \<Rightarrow> int \<Rightarrow> string"
  requests :: "request list"
  verifications :: "(ecc_key \<times> string \<times> string) list"

definition has_account :: "server \<Rightarrow> string \<Rightarrow> bool" where
  "has_account server name = (accounts server name \<noteq> None)"

definition send :: "request \<Rightarrow> server \<Rightarrow> server" where
  "send r server = server\<lparr>requests := requests server @ [r]\<rparr>"

text \<open>
  The library functions the module calls, as parameters: \<open>base64.b64decode\<close> (\<open>Inl\<close> the text
  of the exception it raises) and \<open>b64encode\<close>, the \<open>SHA3_512\<close> digest, \<open>DSS\<close> signing and
  verification in the mode \<open>fips-186-3\<close> (\<open>dss_verify\<close> is true when \<open>verify\<close> returns and false
  when it raises \<open>ValueError\<close>), and \<open>ECC.import_key\<close> (\<open>Inl\<close> the text of its exception).
\<close>

record lib =
  b64decode :: "string \<Rightarrow> string + string"
  b64encode :: "string \<Rightarrow> string"
  sha3_512 :: "string \<Rightarrow> string"
  dss_sign :: "ecc_key \<Rightarrow> string \<Rightarrow> string"
  dss_verify :: "ecc_key \<Rightarrow> string \<Rightarrow> string \<Rightarrow> bool"
  import_key :: "string \<Rightarrow> string + ecc_key"

text \<open>\<open>s.encode('utf-8')\<close> for code points below 256.\<close>

definition encode_utf8 :: "string \<Rightarrow> string" where
  "encode_utf8 s =
     concat (map (\<lambda>c. let n = (of_char c :: nat) in
                       if n < 128 then [c] else [char_of (192 + n div 64), char_of (128 + n mod 64)]) s)"

section \<open>Commands\<close>

text \<open>A raised \<open>CommandException\<close> is the \<open>Inl\<close> of a result; the state comes back with it.\<close>

datatype CommandException = CommandException string

type_synonym outcome = "(CommandException + string) \<times> server"

definition assert_is_account :: "string \<Rightarrow> server \<Rightarrow> CommandException + account" where
  "assert_is_account account_name server =
     (case accounts server account_name of
        None \<Rightarrow> Inl (CommandException
          (''Sorry, I can't process your request because `'' @ account_name @
           ''` does not have an account yet.''))
      | Some account \<Rightarrow> Inr account)"

definition assert_authorized :: "string \<Rightarrow> server \<Rightarrow> Authorization \<Rightarrow> CommandException + account" where
  "assert_authorized account_name server auth_level =
     (case assert_is_account account_name server of
        Inl e \<Rightarrow> Inl e
      | Inr account \<Rightarrow>
          if auth_value (get_authorization account) < auth_value auth_level
          then Inl (CommandException
            (''Sorry, I can't process your request because `'' @ account_name @
             ''` does not have the required authorization.''))
          else Inr account)"

definition perform_transfer :: "string \<Rightarrow> string \<Rightarrow> string \<Rightarrow> int \<Rightarrow> server \<Rightarrow> outcome" where
  "perform_transfer author_name sender_name destination_name amount server =
     (case assert_is_account author_name server of
        Inl e \<Rightarrow> (Inl e, server)
      | Inr author \<Rightarrow>
     (case assert_is_account sender_name server of
        Inl e \<Rightarrow> (Inl e, server)
      | Inr sender \<Rightarrow>
     (case assert_is_account destination_name server of
        Inl e \<Rightarrow> (Inl e, server)
      | Inr dest \<Rightarrow>
          let server1 = send (Can_transfer sender dest amount) server in
          if \<not> can_transfer server sender dest amount
          then (Inr ''Sorry, but I can't perform that transfer.'', server1)
          else
            let server2 = send (Transfer author sender dest amount) server1;
                proof_string =
                  (case transfer_proof server author sender dest amount of
                     Some p \<Rightarrow> '' Proof: '' @ p @ ''.''
                   | None \<Rightarrow> [])
            in (Inr (''Transfer performed successfully.'' @ proof_string), server2))))"

definition process_transfer :: "string \<Rightarrow> string \<Rightarrow> server \<Rightarrow> outcome" where
  "process_transfer author message server =
     (case parse_transfer_command message of
        None \<Rightarrow>
          (Inr (''Transfer formatted incorrectly. Expected `transfer AMOUNT BENEFICIARY`, '' @
                ''where AMOUNT is a positive integer and BENEFICIARY is a username.''), server)
      | Some (amount, destination_name) \<Rightarrow>
          perform_transfer author author destination_name amount server)"

definition process_admin_transfer :: "string \<Rightarrow> string \<Rightarrow> server \<Rightarrow> outcome" where
  "process_admin_transfer author message server =
     (case assert_authorized author server ADMIN of
        Inl e \<Rightarrow> (Inl e, server)
      | Inr _ \<Rightarrow>
     (case parse_admin_transfer_command message of
        None \<Rightarrow>
          (Inr (''Admin transfer formatted incorrectly. Expected `admin-transfer AMOUNT SENDER BENEFICIARY`, '' @
                ''where AMOUNT is a positive integer and SENDER, BENEFICIARY are account holders.''), server)
      | Some (sender_name, amount, destination_name) \<Rightarrow>
          perform_transfer author sender_name destination_name amount server))"

definition process_open_account :: "string \<Rightarrow> string \<Rightarrow> server \<Rightarrow> outcome" where
  "process_open_account author message server =
     (if has_account server author
      then (Inr (''Hi there '' @ author @
                 ''. Looks like you already have an account. No need to open another one.''), server)
      else (Inr (''Hi there '' @ author @
                 ''. Your account has been opened successfully. Thank you for your business.''),
            send (Open_account author) server))"

definition process_admin_open_account :: "string \<Rightarrow> string \<Rightarrow> server \<Rightarrow> outcome" where
  "process_admin_open_account author message server =
     (case assert_authorized author server ADMIN of
        Inl e \<Rightarrow> (Inl e, server)
      | Inr _ \<Rightarrow>
     (case split_whitespace message of
        [_, account_name] \<Rightarrow>
          if has_account server account_name
          then (Inl (CommandException (''Account `'' @ account_name @ ''` already exists.'')), server)
          else (Inr (''Account `'' @ account_name @ ''` has been opened successfully.''),
                send (Open_account account_name) server)
      | _ \<Rightarrow>
          (Inl (CommandException
             (''Incorrectly formatted command; expected `admin-open ACCOUNT_NAME`, '' @
              ''where `ACCOUNT_NAME` is the name of the account to create.'')), server)))"

definition process_balance :: "string \<Rightarrow> string \<Rightarrow> server \<Rightarrow> outcome" where
  "process_balance author message server =
     (case accounts server author of
        None \<Rightarrow>
          (Inr (''Hi there '' @ author @
                ''. I can't tell you what the balance on your account is because you don't have an account yet. '' @
                ''You can open one with the `open` command.''), server)
      | Some account \<Rightarrow>
          let main_response = ''The balance on your account is '' @ str_int (get_balance account) @ ''.''
          in (Inr (''Hi there '' @ lower (auth_name (get_authorization account)) @ '' '' @ author @
                   ''. '' @ main_response @ '' Have a great day.''), server))"

text \<open>The source also prints the key text to the standard output before importing it; that
  is not part of the reply or of the server and is left out.\<close>

definition process_add_public_key :: "lib \<Rightarrow> string \<Rightarrow> string \<Rightarrow> server \<Rightarrow> outcome" where
  "process_add_public_key L author message server =
     (case assert_is_account author server of
        Inl e \<Rightarrow> (Inl e, server)
      | Inr account \<Rightarrow>
          let pem = join [CHR 0x0A]
                      (filter (\<lambda>line. line \<noteq> [] \<and> \<not> isspace line) (tl (split_on (CHR 0x0A) message)))
          in (case import_key L pem of
                Inl e \<Rightarrow>
                  (Inl (CommandException
                     (''Incorrectly formatted key. Inner error message: '' @ e @ ''.'')), server)
              | Inr key \<Rightarrow>
                  (Inr ''Public key added successfully.'', send (Add_public_key account key) server)))"

definition process_authorization :: "string \<Rightarrow> string \<Rightarrow> server \<Rightarrow> outcome" where
  "process_authorization author message server =
     (case assert_authorized author server ADMIN of
        Inl e \<Rightarrow> (Inl e, server)
      | Inr author_account \<Rightarrow>
     (case parse_authorization message of
        None \<Rightarrow>
          (Inl (CommandException
             (''Authorization formatted incorrectly. The right format is '' @
              ''`authorize BENEFICIARY citizen|admin|developer`.'')), server)
      | Some (beneficiary, auth_level) \<Rightarrow>
     (case assert_is_account beneficiary server of
        Inl e \<Rightarrow> (Inl e, server)
      | Inr beneficiary_account \<Rightarrow>
          (Inr (beneficiary @ '' now has authorization level '' @ auth_name auth_level @ ''.''),
           send (Authorize author_account beneficiary_account auth_level) server))))"

definition process_list_accounts :: "string \<Rightarrow> string \<Rightarrow> server \<Rightarrow> outcome" where
  "process_list_accounts author message server =
     (Inr (join [CHR 0x0A]
             ([''| Account | Balance |'', ''| --- | --- |''] @
              map (\<lambda>account. ''| '' @ account_id account @ '' | '' @ str_int (get_balance account) @ '' |'')
                  (list_accounts server))), server)"

definition process_print_money :: "string \<Rightarrow> string \<Rightarrow> server \<Rightarrow> outcome" where
  "process_print_money author message server =
     (case assert_authorized author server ADMIN of
        Inl e \<Rightarrow> (Inl e, server)
      | Inr author_account \<Rightarrow>
     (case parse_print_money message of
        None \<Rightarrow>
          (Inl (CommandException
             ''Command formatted incorrectly. Expected format `print-money AMOUNT BENEFICIARY`.''), server)
      | Some (amount, beneficiary) \<Rightarrow>
     (case assert_is_account beneficiary server of
        Inl e \<Rightarrow> (Inl e, server)
      | Inr beneficiary_account \<Rightarrow>
          (Inr ''Money printed successfully.'',
           send (Print_money author_account beneficiary_account amount) server))))"

definition process_admin_create_recurring_transfer :: "string \<Rightarrow> string \<Rightarrow> server \<Rightarrow> outcome" where
  "process_admin_create_recurring_transfer author message server =
     (case assert_authorized author server ADMIN of
        Inl e \<Rightarrow> (Inl e, server)
      | Inr _ \<Rightarrow>
     (case parse_admin_create_recurring_transfer message of
        None \<Rightarrow>
          (Inr (''Request formatted incorrectly. Expected `admin-create-recurring-transfer '' @
                ''AMOUNT_PER_TICK SENDER BENEFICIARY TICK_COUNT`.''), server)
      | Some (amount, sender_name, destination_name, tick_count) \<Rightarrow>
     (case assert_is_account author server of
        Inl e \<Rightarrow> (Inl e, server)
      | Inr author_account \<Rightarrow>
     (case assert_is_account sender_name server of
        Inl e \<Rightarrow> (Inl e, server)
      | Inr sender_account \<Rightarrow>
     (case assert_is_account destination_name server of
        Inl e \<Rightarrow> (Inl e, server)
      | Inr dest_account \<Rightarrow>
          (Inr (''Recurring transfer set up with ID `'' @
                recurring_transfer_id server author_account sender_account dest_account
                  (amount * tick_count) tick_count @ ''`.''),
           send (Create_recurring_transfer author_account sender_account dest_account
                   (amount * tick_count) tick_count) server))))))"

section \<open>The proxy envelope\<close>

text \<open>
  \<open>parse_impl\<close> is the inner function of \<open>parse_proxy_command\<close>: \<open>Inr None\<close> where it returns
  \<open>None\<close>, \<open>Inl\<close> where it raises because the signature does not decode.
\<close>

definition parse_impl :: "lib \<Rightarrow> string \<Rightarrow> CommandException + (string \<times> string \<times> string) option" where
  "parse_impl L message =
     (case split_once (CHR 0x0A) message of
        [proxy_line, command0] \<Rightarrow>
          let command = strip_chars [CHR 0x0A, CHR 0x0D] command0 in
          (case split_whitespace proxy_line of
             [_, protocol, account_name, enc_signature] \<Rightarrow>
               if protocol \<noteq> ''dsa'' then Inr None
               else (case b64decode L enc_signature of
                       Inl e \<Rightarrow> Inl (CommandException (''Invalid signature. '' @ e))
                     | Inr signature \<Rightarrow> Inr (Some (account_name, signature, command)))
           | _ \<Rightarrow> Inr None)
      | _ \<Rightarrow> Inr None)"

definition parse_proxy_command :: "lib \<Rightarrow> string \<Rightarrow> CommandException + (string \<times> string \<times> string)" where
  "parse_proxy_command L message =
     (case parse_impl L message of
        Inl e \<Rightarrow> Inl e
      | Inr None \<Rightarrow>
          Inl (CommandException
            (''Invalid formatting; expected `proxy dsa PROXIED_ACCOUNT SIGNATURE` '' @
             ''followed by another command on the next line.''))
      | Inr (Some result) \<Rightarrow> Inr result)"

text \<open>The signature is whatever the signing library returns for the key and the digest.\<close>

definition compose_proxy_command :: "lib \<Rightarrow> string \<Rightarrow> ecc_key \<Rightarrow> string \<Rightarrow> string" where
  "compose_proxy_command L proxied_account_name key command0 =
     (let command = strip command0;
          command_hash = sha3_512 L (encode_utf8 command);
          signature = b64encode L (dss_sign L key command_hash)
      in ''proxy dsa '' @ proxied_account_name @ '' '' @ signature @ [CHR 0x0A] @ command)"

text \<open>
  The loop of \<open>process_proxy_command\<close> over the account's keys: each key tried is recorded,
  and the loop leaves at the first key whose verification returns.
\<close>

fun verify_keys :: "lib \<Rightarrow> string \<Rightarrow> string \<Rightarrow> ecc_key list \<Rightarrow> server \<Rightarrow> bool \<times> server" where
  "verify_keys L command_hash signature [] server = (False, server)"
| "verify_keys L command_hash signature (key # keys) server =
     (let server1 = server\<lparr>verifications := verifications server @ [(key, command_hash, signature)]\<rparr>
      in if dss_verify L key command_hash signature then (True, server1)
         else verify_keys L command_hash signature keys server1)"

section \<open>The command table and the dispatcher\<close>

text \<open>
  The handlers of the table are named by a tag; \<open>call_handler\<close> calls the function a tag
  names. An entry is (usage, description, handler, minimum level), with \<open>None\<close> as the
  minimum level of the entries that have three fields only.
\<close>

datatype handler =
    Process_help
  | Process_transfer
  | Process_open_account
  | Process_balance
  | Process_add_public_key
  | Process_proxy_command
  | Process_authorization
  | Process_admin_transfer
  | Process_list_accounts
  | Process_print_money
  | Process_admin_create_recurring_transfer
  | Process_admin_open_account

type_synonym command = "string \<times> string \<times> handler \<times> Authorization option"

definition COMMANDS :: "(string \<times> command) list" where
  "COMMANDS =
    [(''help'', (''help'', ''prints a help message.'', Process_help, None)),
     (''transfer'', (''transfer AMOUNT BENEFICIARY'',
        ''transfers AMOUNT to user BENEFICIARY's account.'', Process_transfer, None)),
     (''open'', (''open'', ''opens a new account.'', Process_open_account, None)),
     (''balance'', (''balance'', ''prints the balance on your account.'', Process_balance, None)),
     (''add-public-key'', (''add-public-key'',
        ''associates an ECC public key with your account. '' @
        ''The public key should be encoded as the contents of a PEM file that is placed on a line after the command itself.'',
        Process_add_public_key, None)),
     (''proxy'', (''proxy dsa PROXIED_ACCOUNT SIGNATURE'',
        ''makes PROXIED_ACCOUNT describes the action described in the remainder of the message (starting on the next line). '' @
        ''SIGNATURE must be an ECDSA-signed SHA3-512 hash of the remainder of the message, where the key that signs the '' @
        ''message must have its public key associated with the proxied account. This command allows a user or application to '' @
        ''safely perform actions on an account holder's behalf.'',
        Process_proxy_command, None)),
     (''authorize'', (''authorize ACCOUNT citizen|admin|developer'',
        ''sets an account's authorization.'', Process_authorization, Some ADMIN)),
     (''admin-transfer'', (''admin-transfer AMOUNT SENDER BENEFICIARY'',
        ''transfers AMOUNT from SENDER to BENEFICIARY.'', Process_admin_transfer, Some ADMIN)),
     (''list'', (''list'', ''lists all accounts and the balance on the accounts.'',
        Process_list_accounts, Some ADMIN)),
     (''print-money'', (''print-money AMOUNT BENEFICIARY'',
        ''generates AMOUNT money and deposits it in BENEFICIARY's account.'',
        Process_print_money, Some ADMIN)),
     (''admin-create-recurring-transfer'',
        (''admin-create-recurring-transfer AMOUNT_PER_TICK SENDER BENEFICIARY TICK_COUNT'',
        ''creates a transfer that will transfer AMOUNT_PER_TICK from SENDER to BENEFICIARY every tick, for TICK_COUNT ticks.'',
        Process_admin_create_recurring_transfer, Some ADMIN)),
     (''admin-open'', (''admin-open ACCOUNT_NAME'',
        ''opens a new account with a particular name. '' @
        ''If a user has ACCOUNT_NAME, then the newly created account will become that user's account.'',
        Process_admin_open_account, Some ADMIN))]"

definition get_authorization_or_citizen :: "string \<Rightarrow> server \<Rightarrow> Authorization" where
  "get_authorization_or_citizen author server =
     (case accounts server author of
        Some account \<Rightarrow> get_authorization account
      | None \<Rightarrow> CITIZEN)"

text \<open>\<open>command_text key\<close> is the line of the listing for the entry stored under \<open>key\<close>.\<close>

definition command_text :: "string \<Rightarrow> string" where
  "command_text key =
     (case map_of COMMANDS key of
        Some (usage, description, _, _) \<Rightarrow> ''`'' @ usage @ ''` &ndash; '' @ description
      | None \<Rightarrow> [])"

definition list_commands :: "string \<Rightarrow> server \<Rightarrow> string list" where
  "list_commands author server =
     map command_text
       (filter (\<lambda>key. case map_of COMMANDS key of
                         Some (_, _, _, None) \<Rightarrow> True
                       | Some (_, _, _, Some level) \<Rightarrow>
                           auth_value (get_authorization_or_citizen author server) \<ge> auth_value level
                       | None \<Rightarrow> False)
               (sort (map fst COMMANDS)))"

definition list_commands_as_markdown :: "string \<Rightarrow> server \<Rightarrow> string" where
  "list_commands_as_markdown author server =
     join [CHR 0x0A] (map (\<lambda>item. ''  * '' @ item) (list_commands author server))"

definition process_help :: "string \<Rightarrow> string \<Rightarrow> server \<Rightarrow> outcome" where
  "process_help author message server =
     (Inr ([CHR 0x0A] @ ''Hi '' @ author @ ''! Here's a list of the commands I understand:'' @
           [CHR 0x0A, CHR 0x0A] @ list_commands_as_markdown author server), server)"

text \<open>
  \<open>process_command\<close> looks the first token up in the table, checks the minimum level of an
  entry above CITIZEN, calls the handler, and turns a \<open>CommandException\<close> of either into its
  text. The handler of \<open>proxy\<close> calls \<open>process_command\<close> again, on the inner command, which
  is shorter than the message it came in.
\<close>

function process_command :: "lib \<Rightarrow> string \<Rightarrow> string \<Rightarrow> server \<Rightarrow> string \<times> server"
  and call_handler :: "lib \<Rightarrow> handler \<Rightarrow> string \<Rightarrow> string \<Rightarrow> server \<Rightarrow> outcome"
  and process_proxy_command :: "lib \<Rightarrow> string \<Rightarrow> string \<Rightarrow> server \<Rightarrow> outcome"
where
  "process_command L author message server =
     (case split_whitespace message of
        [] \<Rightarrow>
          (''Hi '' @ author @ ''! You sent me an empty message. Here's a list of commands I do understand:'' @
           [CHR 0x0A, CHR 0x0A] @ list_commands_as_markdown author server, server)
      | first # _ \<Rightarrow>
          (case map_of COMMANDS first of
             Some (usage, description, h, min_level) \<Rightarrow>
               (case (case min_level of
                        None \<Rightarrow> None
                      | Some level \<Rightarrow>
                          if auth_value level > auth_value CITIZEN
                          then (case assert_authorized author server level of
                                  Inl e \<Rightarrow> Some e
                                | Inr _ \<Rightarrow> None)
                          else None) of
                  Some (CommandException text) \<Rightarrow> (text, server)
                | None \<Rightarrow>
                    (case call_handler L h author message server of
                       (Inl (CommandException text), server1) \<Rightarrow> (text, server1)
                     | (Inr reply, server1) \<Rightarrow> (reply, server1)))
           | None \<Rightarrow>
               (''Hi '' @ author @ ''! I didn't quite understand command your command `'' @ first @
                ''`. Here's a list of commands I do understand:'' @
                [CHR 0x0A, CHR 0x0A] @ list_commands_as_markdown author server, server)))"
| "call_handler L h author message server =
     (case h of
        Process_help \<Rightarrow> process_help author message server
      | Process_transfer \<Rightarrow> process_transfer author message server
      | Process_open_account \<Rightarrow> process_open_account author message server
      | Process_balance \<Rightarrow> process_balance author message server
      | Process_add_public_key \<Rightarrow> process_add_public_key L author message server
      | Process_proxy_command \<Rightarrow> process_proxy_command L author message server
      | Process_authorization \<Rightarrow> process_authorization author message server
      | Process_admin_transfer \<Rightarrow> process_admin_transfer author message server
      | Process_list_accounts \<Rightarrow> process_list_accounts author message server
      | Process_print_money \<Rightarrow> process_print_money author message server
      | Process_admin_create_recurring_transfer \<Rightarrow>
          process_admin_create_recurring_transfer author message server
      | Process_admin_open_account \<Rightarrow> process_admin_open_account author message server)"
| "process_proxy_command L author message server =
     (case parse_proxy_command L message of
        Inl e \<Rightarrow> (Inl e, server)
      | Inr (account_name, signature, command) \<Rightarrow>
          (case assert_is_account account_name server of
             Inl e \<Rightarrow> (Inl e, server)
           | Inr account \<Rightarrow>
               let command_hash = sha3_512 L (encode_utf8 command) in
               (case verify_keys L command_hash signature (list_public_keys account) server of
                  (any_verified, server1) \<Rightarrow>
                    if any_verified
                    then (case process_command L account_name command server1 of
                            (reply, server2) \<Rightarrow> (Inr reply, server2))
                    else (Inl (CommandException
                            ''Cannot execute command by proxy because the signature is invalid.''),
                          server1))))"
  by pat_completeness auto
termination
proof -
  have strip_le: "length (strip_while P s) \<le> length s" for P s
  proof -
    have "length (dropWhile P (rev (dropWhile P s))) \<le> length (rev (dropWhile P s))"
      by (rule length_dropWhile_le)
    also have "\<dots> \<le> length s"
      by (simp add: length_dropWhile_le)
    finally show ?thesis by (simp add: strip_while_def)
  qed
  have rest_shorter: "length b < length s" if "split_once sep s = [a, b]" for sep s a b
  proof -
    from that have mem: "sep \<in> set s" and b: "b = tl (dropWhile (\<lambda>c. c \<noteq> sep) s)"
      by (auto simp: split_once_def split: if_splits)
    from mem have "dropWhile (\<lambda>c. c \<noteq> sep) s \<noteq> []" by auto
    then have "length (tl (dropWhile (\<lambda>c. c \<noteq> sep) s)) < length (dropWhile (\<lambda>c. c \<noteq> sep) s)"
      by (cases "dropWhile (\<lambda>c. c \<noteq> sep) s") auto
    also have "\<dots> \<le> length s" by (rule length_dropWhile_le)
    finally show ?thesis using b by simp
  qed
  have inner_shorter: "length command < length message"
    if "parse_proxy_command L message = Inr (account_name, signature, command)"
    for L message account_name signature command
  proof -
    from that obtain proxy_line command0 where
      sp: "split_once (CHR 0x0A) message = [proxy_line, command0]"
      and cmd: "command = strip_chars [CHR 0x0A, CHR 0x0D] command0"
      by (auto simp: parse_proxy_command_def parse_impl_def Let_def
               split: list.splits if_splits sum.splits option.splits)
    have "length command \<le> length command0"
      using cmd by (simp add: strip_chars_def strip_le)
    with rest_shorter [OF sp] show ?thesis by simp
  qed
  show ?thesis
    by (relation "measure (\<lambda>x. case x of
                     Inl (L, author, message, server) \<Rightarrow> 3 * length message + 2
                   | Inr (Inl (L, h, author, message, server)) \<Rightarrow> 3 * length message + 1
                   | Inr (Inr (L, author, message, server)) \<Rightarrow> 3 * length message)")
       (auto dest: inner_shorter)
qed

declare process_command.simps [simp del]
declare call_handler.simps [simp del]
declare process_proxy_command.simps [simp del]

section \<open>An example library and an example server\<close>

text \<open>
  Concrete values on which the theorems below are run. The base64 functions of \<open>example_lib\<close>
  are the library's own. \<open>python_b64encode\<close> is the standard encoding. \<open>python_b64decode\<close>
  is \<open>base64.b64decode\<close> with its default arguments on a \<open>str\<close>, as CPython 3.11 has it: a
  character outside ASCII is a \<open>ValueError\<close>; then \<open>binascii.a2b_base64\<close> in its non-strict
  mode skips every character that is neither in the alphabet nor the pad, stops at a pad
  sequence that completes a group of four, and raises \<open>binascii.Error\<close> only when the input ends
  inside a group. The arguments of \<open>a2b_base64\<close> are the position in the group of four,
  the bits left over from the last character, the pads seen in a row, and the bytes written.
  The cryptography is a stand-in: the digest of a message is the message itself, a signature
  is the key followed by the digest, and a key verifies exactly the signatures made with it.
\<close>

definition b64_alphabet :: string where
  "b64_alphabet = ''ABCDEFGHIJKLMNOPQRSTUVWXYZabcdefghijklmnopqrstuvwxyz0123456789+/''"

definition b64_char :: "nat \<Rightarrow> char" where
  "b64_char n = b64_alphabet ! n"

fun b64_index_in :: "string \<Rightarrow> char \<Rightarrow> nat option" where
  "b64_index_in [] c = None"
| "b64_index_in (a # as) c = (if a = c then Some 0 else map_option Suc (b64_index_in as c))"

fun python_b64encode :: "string \<Rightarrow> string" where
  "python_b64encode [] = []"
| "python_b64encode [a] =
     (let x = (of_char a :: nat)
      in [b64_char (x div 4), b64_char ((x mod 4) * 16), CHR ''='', CHR ''=''])"
| "python_b64encode [a, b] =
     (let x = (of_char a :: nat); y = (of_char b :: nat)
      in [b64_char (x div 4), b64_char ((x mod 4) * 16 + y div 16), b64_char ((y mod 16) * 4), CHR ''=''])"
| "python_b64encode (a # b # c # rest) =
     (let x = (of_char a :: nat); y = (of_char b :: nat); z = (of_char c :: nat)
      in [b64_char (x div 4), b64_char ((x mod 4) * 16 + y div 16),
          b64_char ((y mod 16) * 4 + z div 64), b64_char (z mod 64)] @ python_b64encode rest)"

fun a2b_base64 :: "nat \<Rightarrow> nat \<Rightarrow> nat \<Rightarrow> string \<Rightarrow> string \<Rightarrow> string + string" where
  "a2b_base64 quad_pos leftchar pads out [] =
     (if quad_pos = 0 then Inr out
      else if quad_pos = 1 then
        Inl (''Invalid base64-encoded string: number of data characters ('' @
             str_nat (length out div 3 * 4 + 1) @ '') cannot be 1 more than a multiple of 4'')
      else Inl ''Incorrect padding'')"
| "a2b_base64 quad_pos leftchar pads out (c # cs) =
     (if c = CHR ''='' then
        (if quad_pos \<ge> 2 \<and> quad_pos + (pads + 1) \<ge> 4 then Inr out
         else a2b_base64 quad_pos leftchar (if quad_pos \<ge> 2 then pads + 1 else pads) out cs)
      else
        (case b64_index_in b64_alphabet c of
           None \<Rightarrow> a2b_base64 quad_pos leftchar pads out cs
         | Some this_ch \<Rightarrow>
             if quad_pos = 0 then a2b_base64 1 this_ch 0 out cs
             else if quad_pos = 1 then
               a2b_base64 2 (this_ch mod 16) 0 (out @ [char_of (leftchar * 4 + this_ch div 16)]) cs
             else if quad_pos = 2 then
               a2b_base64 3 (this_ch mod 4) 0 (out @ [char_of (leftchar * 16 + this_ch div 4)]) cs
             else a2b_base64 0 0 0 (out @ [char_of (leftchar * 64 + this_ch)]) cs))"

definition python_b64decode :: "string \<Rightarrow> string + string" where
  "python_b64decode s =
     (if list_all (\<lambda>c. (of_char c :: nat) < 128) s then a2b_base64 0 0 0 [] s
      else Inl ''string argument should contain only ASCII characters'')"

declare python_b64encode.simps [simp del]
declare a2b_base64.simps [simp del]

definition example_lib :: lib where
  "example_lib =
     \<lparr> b64decode = python_b64decode,
       b64encode = python_b64encode,
       sha3_512 = (\<lambda>m. m),
       dss_sign = (\<lambda>key h. key @ h),
       dss_verify = (\<lambda>key h signature. signature = key @ h),
       import_key = (\<lambda>pem. if pem = [] then Inl ''empty key'' else Inr pem) \<rparr>"

definition alice :: account where
  "alice = \<lparr> account_id = ''alice'', get_authorization = CITIZEN, get_balance = 100,
             list_public_keys = [''k1'', ''k2'', ''k3''] \<rparr>"

definition bob :: account where
  "bob = \<lparr> account_id = ''bob'', get_authorization = CITIZEN, get_balance = 20,
           list_public_keys = [] \<rparr>"

definition root :: account where
  "root = \<lparr> account_id = ''root'', get_authorization = ADMIN, get_balance = 0,
            list_public_keys = [''rk''] \<rparr>"

definition ann_lee :: account where
  "ann_lee = \<lparr> account_id = ''ann lee'', get_authorization = CITIZEN, get_balance = 5,
               list_public_keys = [''k1''] \<rparr>"

definition example_server :: server where
  "example_server =
     \<lparr> accounts = [''alice'' \<mapsto> alice, ''bob'' \<mapsto> bob, ''root'' \<mapsto> root, ''ann lee'' \<mapsto> ann_lee],
       list_accounts = [alice, bob, root, ann_lee],
       can_transfer = (\<lambda>sender dest amount. 0 < amount \<and> amount \<le> get_balance sender),
       transfer_proof = (\<lambda>author sender dest amount. None),
       recurring_transfer_id = (\<lambda>author sender dest total ticks. ''1''),
       requests = [],
       verifications = [] \<rparr>"

section \<open>Facts about the string functions\<close>

declare str_nat.simps [simp del]

lemma is_digit_not_space: "is_digit c \<Longrightarrow> \<not> isspace_char c"
  by (auto simp: is_digit_def isspace_char_def)

lemma is_digit_not_sign: "is_digit c \<Longrightarrow> c \<noteq> CHR ''-'' \<and> c \<noteq> CHR ''+'' \<and> c \<noteq> CHR ''_''"
  by (auto simp: is_digit_def)

lemma digit_char_digit: "n < 10 \<Longrightarrow> is_digit (digit_char n) \<and> digit_value (digit_char n) = n"
  by (simp add: is_digit_def digit_value_def digit_char_def)

lemma strip_while_id:
  assumes "s = [] \<or> (\<not> P (hd s) \<and> \<not> P (last s))"
  shows "strip_while P s = s"
proof (cases s)
  case Nil
  then show ?thesis by (simp add: strip_while_def)
next
  case (Cons c cs)
  with assms have h: "\<not> P c" and l: "\<not> P (last s)" by auto
  from h Cons have d: "dropWhile P s = s" by simp
  from Cons have "s \<noteq> []" by simp
  then obtain ys y where ys: "s = ys @ [y]"
    by (metis append_butlast_last_id)
  with l have "dropWhile P (rev s) = rev s" by simp
  with d show ?thesis by (simp add: strip_while_def)
qed

lemma digits_value_digits:
  "list_all is_digit xs \<Longrightarrow>
   digits_value acc (xs @ ys) = digits_value (foldl (\<lambda>a c. 10 * a + digit_value c) acc xs) ys"
  by (induction xs arbitrary: acc) auto

lemma str_nat_digits:
  "list_all is_digit (str_nat n) \<and> str_nat n \<noteq> [] \<and>
   foldl (\<lambda>a c. 10 * a + digit_value c) 0 (str_nat n) = n"
proof (induction n rule: str_nat.induct)
  case (1 n)
  show ?case
  proof (cases "n < 10")
    case True
    then show ?thesis
      using digit_char_digit [of n] by (subst (1 2 3) str_nat.simps) simp
  next
    case False
    have m: "n mod 10 < 10" by simp
    from False 1 digit_char_digit [OF m] show ?thesis
      by (subst (1 2 3) str_nat.simps) simp
  qed
qed

lemma str_nat_short: "n < 10 ^ d \<Longrightarrow> 0 < d \<Longrightarrow> length (str_nat n) \<le> d"
proof (induction n arbitrary: d rule: str_nat.induct)
  case (1 n)
  show ?case
  proof (cases "n < 10")
    case True
    with 1(3) show ?thesis by (subst str_nat.simps) simp
  next
    case False
    from 1(3) obtain d' where d: "d = Suc d'" by (cases d) auto
    with 1(2) have small: "n div 10 < 10 ^ d'"
      by (simp add: less_mult_imp_div_less mult.commute)
    from False small have "0 < d'" by (cases d') auto
    from 1(1) [OF False small this] False d show ?thesis
      by (subst str_nat.simps) simp
  qed
qed

lemma str_nat_long: "10 ^ d \<le> n \<Longrightarrow> d < length (str_nat n)"
proof (induction n arbitrary: d rule: str_nat.induct)
  case (1 n)
  show ?case
  proof (cases "n < 10")
    case True
    with 1(2) have "(10::nat) ^ d < 10 ^ 1" by simp
    then have "d < 1" by (rule power_less_imp_less_exp [rotated]) simp
    with True show ?thesis by (subst str_nat.simps) simp
  next
    case False
    show ?thesis
    proof (cases d)
      case 0
      with False show ?thesis by (subst str_nat.simps) simp
    next
      case (Suc d')
      with 1(2) have "10 ^ d' \<le> n div 10" by simp
      from 1(1) [OF False this] False Suc show ?thesis
        by (subst str_nat.simps) simp
    qed
  qed
qed

lemma filter_digits_str_nat: "filter is_digit (str_nat n) = str_nat n"
  using str_nat_digits [of n] by (simp add: list_all_iff)

lemma unsigned_value_str_nat:
  "unsigned_value (str_nat n) = (if n < 10 ^ int_max_str_digits then Some n else None)"
proof -
  obtain c cs where s: "str_nat n = c # cs"
    using str_nat_digits [of n] by (cases "str_nat n") auto
  with str_nat_digits [of n] have c: "is_digit c" and cs: "list_all is_digit cs"
    and v: "foldl (\<lambda>a c. 10 * a + digit_value c) (digit_value c) cs = n"
    by auto
  from digits_value_digits [OF cs, of "digit_value c" "[]"] v
  have dv: "digits_value (digit_value c) cs = Some n" by simp
  have pos: "0 < int_max_str_digits" by (simp add: int_max_str_digits_def)
  have len: "(int_max_str_digits < length (str_nat n)) = (\<not> n < 10 ^ int_max_str_digits)"
    using str_nat_short [OF _ pos, of n] str_nat_long [of int_max_str_digits n]
    by (cases "n < 10 ^ int_max_str_digits") (simp_all add: not_less)
  have "unsigned_value (c # cs) =
      (if int_max_str_digits < length (filter is_digit (c # cs)) then None else Some n)"
    using c dv unfolding unsigned_value_def by simp
  then show ?thesis
    unfolding s [symmetric] filter_digits_str_nat len by simp
qed

lemma str_nat_ends: "is_digit (hd (str_nat n)) \<and> is_digit (last (str_nat n))"
  using str_nat_digits [of n]
  by (cases "str_nat n" rule: rev_cases) (auto simp: hd_append list_all_iff split: if_splits)

lemma str_int_no_space: "str_int i \<noteq> [] \<and> (\<forall>c\<in>set (str_int i). \<not> isspace_char c)"
  using str_nat_digits [of "nat i"] str_nat_digits [of "nat (- i)"] is_digit_not_space
  by (auto simp: str_int_def list_all_iff isspace_char_def)

lemma strip_str_int: "strip (str_int i) = str_int i"
proof -
  have "\<not> isspace_char (hd (str_int i))"
    using str_int_no_space [of i] by (cases "str_int i") auto
  moreover have "\<not> isspace_char (last (str_int i))"
    using str_int_no_space [of i] by (cases "str_int i" rule: rev_cases) auto
  ultimately show ?thesis
    unfolding strip_def by (intro strip_while_id) simp
qed

lemma py_int_str_int:
  "py_int (str_int i) = (if \<bar>i\<bar> < 10 ^ int_max_str_digits then Some i else None)"
proof (cases "i < 0")
  case True
  then have "(nat (- i) < 10 ^ int_max_str_digits) = (\<bar>i\<bar> < 10 ^ int_max_str_digits)"
    by (simp add: nat_less_iff)
  with True show ?thesis
    by (simp add: py_int_def strip_str_int) (simp add: str_int_def unsigned_value_str_nat)
next
  case False
  obtain c cs where s: "str_nat (nat i) = c # cs"
    using str_nat_digits [of "nat i"] by (cases "str_nat (nat i)") auto
  with str_nat_ends [of "nat i"] have "is_digit c" by simp
  then have "c \<noteq> CHR ''-''" "c \<noteq> CHR ''+''" using is_digit_not_sign by auto
  moreover from False have "(nat i < 10 ^ int_max_str_digits) = (\<bar>i\<bar> < 10 ^ int_max_str_digits)"
    by (simp add: nat_less_iff)
  ultimately show ?thesis
    using False s unsigned_value_str_nat [of "nat i"]
    by (simp add: py_int_def strip_str_int) (simp add: str_int_def)
qed

lemma split_tokens_word:
  "\<forall>c\<in>set t. \<not> isspace_char c \<Longrightarrow> split_tokens tok (t @ rest) = split_tokens (tok @ t) rest"
  by (induction t arbitrary: tok) auto

lemma split_whitespace_word:
  assumes "t \<noteq> []" and "\<forall>c\<in>set t. \<not> isspace_char c"
  shows "split_whitespace t = [t]"
  using split_tokens_word [OF assms(2), of "[]" "[]"] assms(1)
  by (simp add: split_whitespace_def)

lemma split_whitespace_join:
  "\<forall>t\<in>set ts. t \<noteq> [] \<and> (\<forall>c\<in>set t. \<not> isspace_char c) \<Longrightarrow>
   split_whitespace (join '' '' ts) = ts"
proof (induction "'' ''" ts rule: join.induct)
  case 1
  show ?case by (simp add: split_whitespace_def)
next
  case (2 x)
  then show ?case using split_whitespace_word [of x] by simp
next
  case (3 x y ys)
  have sp: "isspace_char (CHR '' '')" by (simp add: isspace_char_def)
  from 3(2) have x: "x \<noteq> []" "\<forall>c\<in>set x. \<not> isspace_char c" by auto
  from 3 have rest: "split_tokens [] (join '' '' (y # ys)) = y # ys"
    by (simp add: split_whitespace_def)
  have "split_tokens [] (x @ '' '' @ join '' '' (y # ys)) = split_tokens x ('' '' @ join '' '' (y # ys))"
    using split_tokens_word [OF x(2), of "[]"] by simp
  also have "\<dots> = x # split_tokens [] (join '' '' (y # ys))"
    using x(1) sp by simp
  finally show ?case using rest by (simp add: split_whitespace_def)
qed

section \<open>The parsers\<close>

text \<open>
  C6. Each of the five command parsers returns the malformed signal \<open>None\<close> exactly when the
  number of whitespace-separated tokens of the message is not the arity of the command, or
  a typed field does not convert (an amount or tick count that \<open>int\<close> rejects, a role name
  that is not a member of \<open>Authorization\<close> after upper-casing). The parsers are total
  functions into an option of the complete tuple: there is no partial tuple and no
  exception.
\<close>

theorem parsers_malformed:
  "(parse_transfer_command m = None) =
     (length (split_whitespace m) \<noteq> 3 \<or> py_int (split_whitespace m ! 1) = None) \<and>
   (parse_admin_transfer_command m = None) =
     (length (split_whitespace m) \<noteq> 4 \<or> py_int (split_whitespace m ! 1) = None) \<and>
   (parse_authorization m = None) =
     (length (split_whitespace m) \<noteq> 3 \<or>
      Authorization_of_name (upper (split_whitespace m ! 2)) = None) \<and>
   (parse_print_money m = None) =
     (length (split_whitespace m) \<noteq> 3 \<or> py_int (split_whitespace m ! 1) = None) \<and>
   (parse_admin_create_recurring_transfer m = None) =
     (length (split_whitespace m) \<noteq> 5 \<or> py_int (split_whitespace m ! 1) = None \<or>
      py_int (split_whitespace m ! 4) = None)"
proof (intro conjI)
  show "(parse_transfer_command m = None) =
     (length (split_whitespace m) \<noteq> 3 \<or> py_int (split_whitespace m ! 1) = None)"
    by (auto simp: parse_transfer_command_def split: list.splits option.splits)
  show "(parse_admin_transfer_command m = None) =
     (length (split_whitespace m) \<noteq> 4 \<or> py_int (split_whitespace m ! 1) = None)"
    by (auto simp: parse_admin_transfer_command_def split: list.splits option.splits)
  show "(parse_authorization m = None) =
     (length (split_whitespace m) \<noteq> 3 \<or>
      Authorization_of_name (upper (split_whitespace m ! 2)) = None)"
    by (auto simp: parse_authorization_def split: list.splits option.splits)
  show "(parse_print_money m = None) =
     (length (split_whitespace m) \<noteq> 3 \<or> py_int (split_whitespace m ! 1) = None)"
    by (auto simp: parse_print_money_def split: list.splits option.splits)
  show "(parse_admin_create_recurring_transfer m = None) =
     (length (split_whitespace m) \<noteq> 5 \<or> py_int (split_whitespace m ! 1) = None \<or>
      py_int (split_whitespace m ! 4) = None)"
    by (auto simp: parse_admin_create_recurring_transfer_def split: list.splits option.splits)
qed

lemma example_tokens:
  "split_whitespace ''transfer 10'' = [''transfer'', ''10'']"
  "split_whitespace ''transfer ten bob'' = [''transfer'', ''ten'', ''bob'']"
  "split_whitespace ''admin-transfer 10 alice bob now'' = [''admin-transfer'', ''10'', ''alice'', ''bob'', ''now'']"
  "split_whitespace ''authorize bob king'' = [''authorize'', ''bob'', ''king'']"
  "split_whitespace ''print-money 1__0 bob'' = [''print-money'', ''1__0'', ''bob'']"
  "split_whitespace ''admin-create-recurring-transfer 5 alice bob 3.5'' =
     [''admin-create-recurring-transfer'', ''5'', ''alice'', ''bob'', ''3.5'']"
  by code_simp+

lemma example_fields:
  "py_int ''ten'' = None" "py_int ''1__0'' = None" "py_int ''3.5'' = None"
  "Authorization_of_name (upper ''king'') = None"
  by code_simp+

theorem parsers_malformed_witness:
  "length (split_whitespace ''transfer 10'') \<noteq> 3 \<and>
   parse_transfer_command ''transfer 10'' = None \<and>
   py_int (split_whitespace ''transfer ten bob'' ! 1) = None \<and>
   parse_transfer_command ''transfer ten bob'' = None \<and>
   length (split_whitespace ''admin-transfer 10 alice bob now'') \<noteq> 4 \<and>
   parse_admin_transfer_command ''admin-transfer 10 alice bob now'' = None \<and>
   Authorization_of_name (upper (split_whitespace ''authorize bob king'' ! 2)) = None \<and>
   parse_authorization ''authorize bob king'' = None \<and>
   py_int (split_whitespace ''print-money 1__0 bob'' ! 1) = None \<and>
   parse_print_money ''print-money 1__0 bob'' = None \<and>
   py_int (split_whitespace ''admin-create-recurring-transfer 5 alice bob 3.5'' ! 4) = None \<and>
   parse_admin_create_recurring_transfer ''admin-create-recurring-transfer 5 alice bob 3.5'' = None"
  using parsers_malformed [of "''transfer 10''"]
    parsers_malformed [of "''transfer ten bob''"]
    parsers_malformed [of "''admin-transfer 10 alice bob now''"]
    parsers_malformed [of "''authorize bob king''"]
    parsers_malformed [of "''print-money 1__0 bob''"]
    parsers_malformed [of "''admin-create-recurring-transfer 5 alice bob 3.5''"]
  by (simp add: example_tokens example_fields)

text \<open>
  C7, as the code has it. The amount of a transfer, print-money or admin-transfer message is
  read by \<open>int\<close> with no check of its sign: when the amount token is the decimal text of an
  integer \<open>n\<close> of at most \<open>int_max_str_digits\<close> digits (zero and the negative integers among
  them), or any other literal that \<open>int\<close> reads as \<open>n\<close>, the parser returns the tuple with
  exactly \<open>n\<close>. When the amount token is the decimal text of an integer of more digits,
  \<open>int\<close> raises \<open>ValueError\<close> and the parser returns the malformed signal \<open>None\<close>.
\<close>

theorem amount_parsed_within_digit_limit:
  "(split_whitespace m = [c, a, d] \<and>
    ((a = str_int n \<and> \<bar>n\<bar> < 10 ^ int_max_str_digits) \<or> py_int a = Some n) \<longrightarrow>
      parse_transfer_command m = Some (n, d) \<and> parse_print_money m = Some (n, d)) \<and>
   (split_whitespace m = [c, a, s, d] \<and>
    ((a = str_int n \<and> \<bar>n\<bar> < 10 ^ int_max_str_digits) \<or> py_int a = Some n) \<longrightarrow>
      parse_admin_transfer_command m = Some (s, n, d)) \<and>
   (split_whitespace m = [c, a, d] \<and> a = str_int n \<and> 10 ^ int_max_str_digits \<le> \<bar>n\<bar> \<longrightarrow>
      parse_transfer_command m = None \<and> parse_print_money m = None) \<and>
   (split_whitespace m = [c, a, s, d] \<and> a = str_int n \<and> 10 ^ int_max_str_digits \<le> \<bar>n\<bar> \<longrightarrow>
      parse_admin_transfer_command m = None)"
proof (intro conjI impI)
  assume h: "split_whitespace m = [c, a, d] \<and>
    ((a = str_int n \<and> \<bar>n\<bar> < 10 ^ int_max_str_digits) \<or> py_int a = Some n)"
  then have "py_int a = Some n" using py_int_str_int [of n] by auto
  with h show "parse_transfer_command m = Some (n, d)" "parse_print_money m = Some (n, d)"
    by (simp_all add: parse_transfer_command_def parse_print_money_def)
next
  assume h: "split_whitespace m = [c, a, s, d] \<and>
    ((a = str_int n \<and> \<bar>n\<bar> < 10 ^ int_max_str_digits) \<or> py_int a = Some n)"
  then have "py_int a = Some n" using py_int_str_int [of n] by auto
  with h show "parse_admin_transfer_command m = Some (s, n, d)"
    by (simp add: parse_admin_transfer_command_def)
next
  assume h: "split_whitespace m = [c, a, d] \<and> a = str_int n \<and> 10 ^ int_max_str_digits \<le> \<bar>n\<bar>"
  then have "py_int a = None" using py_int_str_int [of n] by auto
  with h show "parse_transfer_command m = None" "parse_print_money m = None"
    by (simp_all add: parse_transfer_command_def parse_print_money_def)
next
  assume h: "split_whitespace m = [c, a, s, d] \<and> a = str_int n \<and> 10 ^ int_max_str_digits \<le> \<bar>n\<bar>"
  then have "py_int a = None" using py_int_str_int [of n] by auto
  with h show "parse_admin_transfer_command m = None"
    by (simp add: parse_admin_transfer_command_def)
qed

lemma example_amount_tokens:
  "split_whitespace ''transfer -5 bob'' = [''transfer'', ''-5'', ''bob'']"
  "split_whitespace ''print-money 0 bob'' = [''print-money'', ''0'', ''bob'']"
  "split_whitespace ''admin-transfer 123456789012345678901234567890 alice bob'' =
     [''admin-transfer'', ''123456789012345678901234567890'', ''alice'', ''bob'']"
  "split_whitespace ''transfer +1_000 bob'' = [''transfer'', ''+1_000'', ''bob'']"
  by code_simp+

lemma digit_char_numerals:
  "digit_char 0 = CHR ''0''" "digit_char 1 = CHR ''1''" "digit_char 2 = CHR ''2''"
  "digit_char 3 = CHR ''3''" "digit_char 4 = CHR ''4''" "digit_char 5 = CHR ''5''"
  "digit_char 6 = CHR ''6''" "digit_char 7 = CHR ''7''" "digit_char 8 = CHR ''8''"
  "digit_char 9 = CHR ''9''" "digit_char (Suc 0) = CHR ''1''"
  by code_simp+

lemma example_amounts:
  "str_int (- 5) = ''-5''" "str_int 0 = ''0''"
  "str_int 123456789012345678901234567890 = ''123456789012345678901234567890''"
  by (simp_all add: str_int_def str_nat.simps digit_char_numerals)

lemma example_literal: "py_int ''+1_000'' = Some 1000"
  by code_simp

lemma below_digit_limit: "\<bar>n\<bar> < 10 ^ 30 \<Longrightarrow> \<bar>n :: int\<bar> < 10 ^ int_max_str_digits"
proof -
  assume "\<bar>n\<bar> < 10 ^ 30"
  moreover have "(10 :: int) ^ 30 \<le> 10 ^ int_max_str_digits"
    by (rule power_increasing) (simp_all add: int_max_str_digits_def)
  ultimately show ?thesis by (rule less_le_trans)
qed

lemma example_bounds:
  "(5 :: int) < 10 ^ int_max_str_digits"
  "(123456789012345678901234567890 :: int) < 10 ^ int_max_str_digits"
  using below_digit_limit [of 5] below_digit_limit [of 123456789012345678901234567890]
  by simp_all

lemma amount_message_tokens:
  "split_whitespace (''transfer '' @ str_int n @ '' bob'') = [''transfer'', str_int n, ''bob'']"
  "split_whitespace (''print-money '' @ str_int n @ '' bob'') = [''print-money'', str_int n, ''bob'']"
  "split_whitespace (''admin-transfer '' @ str_int n @ '' alice bob'') =
     [''admin-transfer'', str_int n, ''alice'', ''bob'']"
  using split_whitespace_join [of "[''transfer'', str_int n, ''bob'']"]
    split_whitespace_join [of "[''print-money'', str_int n, ''bob'']"]
    split_whitespace_join [of "[''admin-transfer'', str_int n, ''alice'', ''bob'']"]
    str_int_no_space [of n]
  by (simp_all add: isspace_char_def)

theorem amount_parsed_within_digit_limit_witness:
  "split_whitespace ''transfer -5 bob'' = [''transfer'', str_int (- 5), ''bob''] \<and>
   \<bar>- 5 :: int\<bar> < 10 ^ int_max_str_digits \<and>
   parse_transfer_command ''transfer -5 bob'' = Some (- 5, ''bob'') \<and>
   split_whitespace ''print-money 0 bob'' = [''print-money'', str_int 0, ''bob''] \<and>
   \<bar>0 :: int\<bar> < 10 ^ int_max_str_digits \<and>
   parse_print_money ''print-money 0 bob'' = Some (0, ''bob'') \<and>
   split_whitespace ''admin-transfer 123456789012345678901234567890 alice bob'' =
     [''admin-transfer'', str_int 123456789012345678901234567890, ''alice'', ''bob''] \<and>
   \<bar>123456789012345678901234567890 :: int\<bar> < 10 ^ int_max_str_digits \<and>
   parse_admin_transfer_command ''admin-transfer 123456789012345678901234567890 alice bob'' =
     Some (''alice'', 123456789012345678901234567890, ''bob'') \<and>
   py_int ''+1_000'' = Some 1000 \<and>
   parse_transfer_command ''transfer +1_000 bob'' = Some (1000, ''bob'') \<and>
   split_whitespace (''print-money '' @ str_int (- (10 ^ int_max_str_digits)) @ '' bob'') =
     [''print-money'', str_int (- (10 ^ int_max_str_digits)), ''bob''] \<and>
   (10 :: int) ^ int_max_str_digits \<le> \<bar>- (10 ^ int_max_str_digits)\<bar> \<and>
   parse_print_money (''print-money '' @ str_int (- (10 ^ int_max_str_digits)) @ '' bob'') = None"
  using amount_parsed_within_digit_limit [where m = "''transfer -5 bob''" and c = "''transfer''"
      and a = "''-5''" and d = "''bob''" and n = "- 5"]
    amount_parsed_within_digit_limit [where m = "''print-money 0 bob''" and c = "''print-money''"
      and a = "''0''" and d = "''bob''" and n = 0]
    amount_parsed_within_digit_limit [where m = "''admin-transfer 123456789012345678901234567890 alice bob''"
      and c = "''admin-transfer''" and a = "''123456789012345678901234567890''" and s = "''alice''"
      and d = "''bob''" and n = 123456789012345678901234567890]
    amount_parsed_within_digit_limit [where m = "''transfer +1_000 bob''" and c = "''transfer''"
      and a = "''+1_000''" and d = "''bob''" and n = 1000]
    amount_parsed_within_digit_limit [where m = "''print-money '' @ str_int (- (10 ^ int_max_str_digits)) @ '' bob''"
      and c = "''print-money''" and a = "str_int (- (10 ^ int_max_str_digits))" and d = "''bob''"
      and n = "- (10 ^ int_max_str_digits)"]
    amount_message_tokens(2) [of "- (10 ^ int_max_str_digits)"]
  by (simp add: example_amount_tokens example_amounts example_literal example_bounds)

text \<open>
  The claim of C7 as the specification states it, for every syntactically valid integer
  literal, fails beyond the digit limit of \<open>int\<close>: the decimal text of ten to the power
  \<open>int_max_str_digits\<close> (a one followed by that many zeros) is a well-formed amount token of
  more than \<open>int_max_str_digits\<close> digits, and the three parsers return \<open>None\<close> for it.
\<close>

theorem amount_digit_limit_counterexample:
  "int_max_str_digits = 4300 \<and>
   int_max_str_digits < length (str_int (10 ^ int_max_str_digits)) \<and>
   split_whitespace (''transfer '' @ str_int (10 ^ int_max_str_digits) @ '' bob'') =
     [''transfer'', str_int (10 ^ int_max_str_digits), ''bob''] \<and>
   parse_transfer_command (''transfer '' @ str_int (10 ^ int_max_str_digits) @ '' bob'') = None \<and>
   split_whitespace (''print-money '' @ str_int (10 ^ int_max_str_digits) @ '' bob'') =
     [''print-money'', str_int (10 ^ int_max_str_digits), ''bob''] \<and>
   parse_print_money (''print-money '' @ str_int (10 ^ int_max_str_digits) @ '' bob'') = None \<and>
   split_whitespace (''admin-transfer '' @ str_int (10 ^ int_max_str_digits) @ '' alice bob'') =
     [''admin-transfer'', str_int (10 ^ int_max_str_digits), ''alice'', ''bob''] \<and>
   parse_admin_transfer_command (''admin-transfer '' @ str_int (10 ^ int_max_str_digits) @ '' alice bob'') = None"
proof -
  have lim: "int_max_str_digits = 4300" by (simp add: int_max_str_digits_def)
  have "str_int (10 ^ int_max_str_digits) = str_nat (10 ^ int_max_str_digits)"
    by (simp add: str_int_def nat_power_eq)
  then have len: "int_max_str_digits < length (str_int (10 ^ int_max_str_digits))"
    using str_nat_long [of int_max_str_digits "10 ^ int_max_str_digits"] by simp
  have none: "py_int (str_int (10 ^ int_max_str_digits)) = None"
    using py_int_str_int [of "10 ^ int_max_str_digits"] by simp
  have t: "parse_transfer_command (''transfer '' @ str_int (10 ^ int_max_str_digits) @ '' bob'') = None"
    unfolding parse_transfer_command_def amount_message_tokens by (simp add: none)
  have p: "parse_print_money (''print-money '' @ str_int (10 ^ int_max_str_digits) @ '' bob'') = None"
    unfolding parse_print_money_def amount_message_tokens by (simp add: none)
  have a: "parse_admin_transfer_command
      (''admin-transfer '' @ str_int (10 ^ int_max_str_digits) @ '' alice bob'') = None"
    unfolding parse_admin_transfer_command_def amount_message_tokens by (simp add: none)
  show ?thesis
    using lim len t p a amount_message_tokens [of "10 ^ int_max_str_digits"] by blast
qed

section \<open>Facts about tokens, lines and the key loop\<close>

lemma split_tokens_proxy_header:
  assumes "name \<noteq> []" and "\<forall>c\<in>set name. \<not> isspace_char c"
    and "enc \<noteq> []" and "\<forall>c\<in>set enc. \<not> isspace_char c"
  shows "split_whitespace (''proxy dsa '' @ name @ '' '' @ enc) = [''proxy'', ''dsa'', name, enc]"
proof -
  have sp: "isspace_char (CHR '' '')" by (simp add: isspace_char_def)
  have "split_whitespace (''proxy dsa '' @ name @ '' '' @ enc) = ''proxy'' # ''dsa'' # split_tokens [] (name @ '' '' @ enc)"
    by (simp add: split_whitespace_def isspace_char_def)
  also have "split_tokens [] (name @ '' '' @ enc) = split_tokens name ('' '' @ enc)"
    using split_tokens_word [OF assms(2), of "[]"] by simp
  also have "\<dots> = name # split_tokens [] enc"
    using assms(1) sp by simp
  also have "split_tokens [] enc = [enc]"
    using split_whitespace_word [OF assms(3,4)] by (simp add: split_whitespace_def)
  finally show ?thesis .
qed

lemma split_once_line:
  assumes "sep \<notin> set header"
  shows "split_once sep (header @ sep # rest) = [header, rest]"
proof -
  from assms have "takeWhile (\<lambda>c. c \<noteq> sep) (header @ sep # rest) = header"
    by (induction header) auto
  moreover from assms have "dropWhile (\<lambda>c. c \<noteq> sep) (header @ sep # rest) = sep # rest"
    by (induction header) auto
  ultimately show ?thesis by (simp add: split_once_def)
qed

lemma split_once_no_sep: "sep \<notin> set s \<Longrightarrow> split_once sep s = [s]"
  by (simp add: split_once_def)

lemma last_dropWhile_eq: "dropWhile P xs \<noteq> [] \<Longrightarrow> last (dropWhile P xs) = last xs"
  by (induction xs) (auto split: if_splits)

lemma strip_while_ends:
  "strip_while P s = [] \<or> (\<not> P (hd (strip_while P s)) \<and> \<not> P (last (strip_while P s)))"
proof (cases "strip_while P s = []")
  case True
  then show ?thesis by simp
next
  case False
  define t where "t = dropWhile P s"
  define u where "u = dropWhile P (rev t)"
  have su: "strip_while P s = rev u" by (simp add: strip_while_def t_def u_def)
  with False have u: "u \<noteq> []" by simp
  then have t: "t \<noteq> []" by (auto simp: u_def)
  from u have "\<not> P (hd u)" unfolding u_def by (rule hd_dropWhile)
  then have l: "\<not> P (last (rev u))" using u by (simp add: last_rev)
  from u have "last u = last (rev t)" unfolding u_def by (rule last_dropWhile_eq)
  then have "hd (rev u) = hd t" using u t by (simp add: hd_rev last_rev)
  moreover from t have "\<not> P (hd t)" unfolding t_def by (rule hd_dropWhile)
  ultimately show ?thesis using l su by simp
qed

lemma strip_chars_strip: "strip_chars [CHR 0x0A, CHR 0x0D] (strip s) = strip s"
proof -
  have "strip s = [] \<or> (\<not> isspace_char (hd (strip s)) \<and> \<not> isspace_char (last (strip s)))"
    unfolding strip_def by (rule strip_while_ends)
  then have "strip s = [] \<or>
      (\<not> (hd (strip s) \<in> set [CHR 0x0A, CHR 0x0D]) \<and> \<not> (last (strip s) \<in> set [CHR 0x0A, CHR 0x0D]))"
    by (auto simp: isspace_char_def)
  then show ?thesis unfolding strip_chars_def by (rule strip_while_id)
qed

text \<open>The loop tries the keys in order up to and including the first that verifies.\<close>

lemma verify_keys_tried:
  "verify_keys L h sg keys server =
     ((\<exists>key\<in>set keys. dss_verify L key h sg),
      server\<lparr>verifications := verifications server @
        map (\<lambda>key. (key, h, sg))
          (takeWhile (\<lambda>key. \<not> dss_verify L key h sg) keys @
           take 1 (dropWhile (\<lambda>key. \<not> dss_verify L key h sg) keys))\<rparr>)"
  by (induction keys arbitrary: server) (auto simp: Let_def)

lemma process_proxy_command_unfold:
  assumes "parse_proxy_command L message = Inr (account_name, signature, command)"
    and "accounts server account_name = Some account"
  shows "process_proxy_command L author message server =
     (case verify_keys L (sha3_512 L (encode_utf8 command)) signature (list_public_keys account) server of
        (any_verified, server1) \<Rightarrow>
          if any_verified
          then (case process_command L account_name command server1 of
                  (reply, server2) \<Rightarrow> (Inr reply, server2))
          else (Inl (CommandException
                  ''Cannot execute command by proxy because the signature is invalid.''), server1))"
  using assms by (subst process_proxy_command.simps) (simp add: assert_is_account_def)

lemma process_proxy_command_malformed:
  assumes "parse_proxy_command L message = Inl e"
  shows "process_proxy_command L author message server = (Inl e, server)"
  using assms by (subst process_proxy_command.simps) simp

section \<open>Proxy verification\<close>

lemma example_server_fields:
  "accounts example_server ''alice'' = Some alice"
  "accounts example_server ''bob'' = Some bob"
  "accounts example_server ''root'' = Some root"
  "accounts example_server ''ann lee'' = Some ann_lee"
  "accounts example_server ''carol'' = None"
  "requests example_server = []"
  "verifications example_server = []"
  by (simp_all add: example_server_def)

lemma example_account_fields:
  "list_public_keys alice = [''k1'', ''k2'', ''k3'']"
  "list_public_keys bob = []"
  "list_public_keys ann_lee = [''k1'']"
  "get_authorization alice = CITIZEN"
  "get_authorization bob = CITIZEN"
  "get_authorization root = ADMIN"
  by (simp_all add: alice_def bob_def root_def ann_lee_def)

lemma example_lib_fields:
  "sha3_512 example_lib m = m"
  "dss_sign example_lib key h = key @ h"
  "dss_verify example_lib key h sg = (sg = key @ h)"
  "b64decode example_lib = python_b64decode"
  "b64encode example_lib = python_b64encode"
  by (simp_all add: example_lib_def)

lemma example_envelopes:
  "parse_proxy_command example_lib ''proxy dsa alice azJoZWxw\<newline>help'' =
     Inr (''alice'', ''k2help'', ''help'')"
  "parse_proxy_command example_lib ''proxy dsa alice azloZWxw\<newline>help'' =
     Inr (''alice'', ''k9help'', ''help'')"
  "parse_proxy_command example_lib ''proxy dsa bob azFoZWxw\<newline>help'' =
     Inr (''bob'', ''k1help'', ''help'')"
  by code_simp+

lemma example_utf8: "encode_utf8 ''help'' = ''help''"
  by code_simp

text \<open>
  C3. For a well-formed envelope whose proxied account exists, \<open>process_proxy_command\<close> asks
  for the verification of the signature against the SHA3-512 digest of the UTF-8 bytes of
  the inner command, key by key in the stored order. If some key verifies, the keys tried
  are exactly those before the first verifying key followed by that key, no later key is
  tried, and the inner command is then dispatched as the proxied account. If no key
  verifies, every key has been tried, the result is the \<open>CommandException\<close> for an invalid
  signature, and nothing is asked of the accounting server (\<open>requests\<close> is unchanged).
\<close>

theorem proxy_keys_tried_in_order:
  fixes L :: lib and command :: string and account :: account
    and h :: string and keys :: "ecc_key list"
  defines "h \<equiv> sha3_512 L (encode_utf8 command)"
    and "keys \<equiv> list_public_keys account"
  assumes "parse_proxy_command L message = Inr (account_name, signature, command)"
    and "accounts server account_name = Some account"
  shows
    "((\<exists>key\<in>set keys. dss_verify L key h signature) \<longrightarrow>
        process_proxy_command L author message server =
          (case process_command L account_name command
                  (server\<lparr>verifications := verifications server @
                     map (\<lambda>key. (key, h, signature))
                       (takeWhile (\<lambda>key. \<not> dss_verify L key h signature) keys @
                        [hd (dropWhile (\<lambda>key. \<not> dss_verify L key h signature) keys)])\<rparr>) of
             (reply, server2) \<Rightarrow> (Inr reply, server2))) \<and>
     (\<not> (\<exists>key\<in>set keys. dss_verify L key h signature) \<longrightarrow>
        process_proxy_command L author message server =
          (Inl (CommandException ''Cannot execute command by proxy because the signature is invalid.''),
           server\<lparr>verifications := verifications server @ map (\<lambda>key. (key, h, signature)) keys\<rparr>))"
proof (intro conjI impI)
  assume ex: "\<exists>key\<in>set keys. dss_verify L key h signature"
  then have "dropWhile (\<lambda>key. \<not> dss_verify L key h signature) keys \<noteq> []"
    by (auto simp: dropWhile_eq_Nil_conv)
  then have "take 1 (dropWhile (\<lambda>key. \<not> dss_verify L key h signature) keys) =
      [hd (dropWhile (\<lambda>key. \<not> dss_verify L key h signature) keys)]"
    by (cases "dropWhile (\<lambda>key. \<not> dss_verify L key h signature) keys") auto
  with ex show "process_proxy_command L author message server =
          (case process_command L account_name command
                  (server\<lparr>verifications := verifications server @
                     map (\<lambda>key. (key, h, signature))
                       (takeWhile (\<lambda>key. \<not> dss_verify L key h signature) keys @
                        [hd (dropWhile (\<lambda>key. \<not> dss_verify L key h signature) keys)])\<rparr>) of
             (reply, server2) \<Rightarrow> (Inr reply, server2))"
    unfolding process_proxy_command_unfold [OF assms(3,4)] verify_keys_tried h_def [symmetric] keys_def [symmetric]
    by simp
next
  assume no: "\<not> (\<exists>key\<in>set keys. dss_verify L key h signature)"
  then have tw: "takeWhile (\<lambda>key. \<not> dss_verify L key h signature) keys = keys"
    and dw: "dropWhile (\<lambda>key. \<not> dss_verify L key h signature) keys = []"
    by (auto simp: takeWhile_eq_all_conv)
  from no show "process_proxy_command L author message server =
          (Inl (CommandException ''Cannot execute command by proxy because the signature is invalid.''),
           server\<lparr>verifications := verifications server @ map (\<lambda>key. (key, h, signature)) keys\<rparr>)"
    unfolding process_proxy_command_unfold [OF assms(3,4)] verify_keys_tried h_def [symmetric] keys_def [symmetric]
    by (simp add: tw dw)
qed

theorem proxy_keys_tried_in_order_witness:
  "parse_proxy_command example_lib ''proxy dsa alice azJoZWxw\<newline>help'' =
     Inr (''alice'', ''k2help'', ''help'') \<and>
   accounts example_server ''alice'' = Some alice \<and>
   list_public_keys alice = [''k1'', ''k2'', ''k3''] \<and>
   (\<exists>key\<in>set (list_public_keys alice). dss_verify example_lib key ''help'' ''k2help'') \<and>
   process_proxy_command example_lib ''carol'' ''proxy dsa alice azJoZWxw\<newline>help'' example_server =
     (case process_command example_lib ''alice'' ''help''
             (example_server\<lparr>verifications :=
                [(''k1'', ''help'', ''k2help''), (''k2'', ''help'', ''k2help'')]\<rparr>) of
        (reply, server2) \<Rightarrow> (Inr reply, server2)) \<and>
   parse_proxy_command example_lib ''proxy dsa alice azloZWxw\<newline>help'' =
     Inr (''alice'', ''k9help'', ''help'') \<and>
   \<not> (\<exists>key\<in>set (list_public_keys alice). dss_verify example_lib key ''help'' ''k9help'') \<and>
   process_proxy_command example_lib ''carol'' ''proxy dsa alice azloZWxw\<newline>help'' example_server =
     (Inl (CommandException ''Cannot execute command by proxy because the signature is invalid.''),
      example_server\<lparr>verifications :=
        [(''k1'', ''help'', ''k9help''), (''k2'', ''help'', ''k9help''), (''k3'', ''help'', ''k9help'')]\<rparr>)"
  using proxy_keys_tried_in_order [OF example_envelopes(1) example_server_fields(1), of "''carol''"]
    proxy_keys_tried_in_order [OF example_envelopes(2) example_server_fields(1), of "''carol''"]
  by (simp add: example_envelopes example_server_fields example_account_fields example_lib_fields
        example_utf8)

text \<open>
  C10. When the proxied account of a well-formed envelope exists and has no registered key,
  \<open>process_proxy_command\<close> raises the \<open>CommandException\<close> for an invalid signature whatever the
  signature is, and the server comes back as it was: the inner command is not dispatched,
  nothing is asked of the accounting server, and no verification is attempted.
\<close>

theorem proxy_without_keys_rejected:
  assumes "parse_proxy_command L message = Inr (account_name, signature, command)"
    and "accounts server account_name = Some account"
    and "list_public_keys account = []"
  shows "process_proxy_command L author message server =
     (Inl (CommandException ''Cannot execute command by proxy because the signature is invalid.''), server)"
  unfolding process_proxy_command_unfold [OF assms(1,2)] by (simp add: assms(3))

theorem proxy_without_keys_rejected_witness:
  "parse_proxy_command example_lib ''proxy dsa bob azFoZWxw\<newline>help'' =
     Inr (''bob'', ''k1help'', ''help'') \<and>
   accounts example_server ''bob'' = Some bob \<and>
   list_public_keys bob = [] \<and>
   process_proxy_command example_lib ''alice'' ''proxy dsa bob azFoZWxw\<newline>help'' example_server =
     (Inl (CommandException ''Cannot execute command by proxy because the signature is invalid.''),
      example_server)"
  using proxy_without_keys_rejected [OF example_envelopes(3) example_server_fields(2)
      example_account_fields(2), of "''alice''"]
  by (simp add: example_envelopes example_server_fields example_account_fields)

lemma process_proxy_command_author:
  "process_proxy_command L author1 message server = process_proxy_command L author2 message server"
  by (subst (1 2) process_proxy_command.simps) (rule refl)

lemma proxy_entry:
  "map_of COMMANDS ''proxy'' =
     Some (''proxy dsa PROXIED_ACCOUNT SIGNATURE'',
        ''makes PROXIED_ACCOUNT describes the action described in the remainder of the message (starting on the next line). '' @
        ''SIGNATURE must be an ECDSA-signed SHA3-512 hash of the remainder of the message, where the key that signs the '' @
        ''message must have its public key associated with the proxied account. This command allows a user or application to '' @
        ''safely perform actions on an account holder's behalf.'',
        Process_proxy_command, None)"
  by (simp add: COMMANDS_def)

lemma process_command_proxy:
  assumes "split_whitespace message = ''proxy'' # rest"
  shows "process_command L author message server =
     (case process_proxy_command L author message server of
        (Inl (CommandException text), server1) \<Rightarrow> (text, server1)
      | (Inr reply, server1) \<Rightarrow> (reply, server1))"
  by (subst process_command.simps) (simp add: assms proxy_entry call_handler.simps)

text \<open>
  C9. The result of \<open>process_proxy_command\<close> does not depend on the outer author: for the same
  library, message and server, any two authors get the same reply and the same server. The
  table gives \<open>proxy\<close> no minimum level, so the same holds for \<open>process_command\<close> on a
  message whose first token is \<open>proxy\<close>: the outer sender needs no account.
\<close>

theorem proxy_ignores_outer_author:
  "process_proxy_command L author1 message server = process_proxy_command L author2 message server \<and>
   (split_whitespace message = ''proxy'' # rest \<longrightarrow>
      process_command L author1 message server = process_command L author2 message server)"
  using process_proxy_command_author [of L author1 message server author2]
  by (simp add: process_command_proxy)

lemma example_proxy_tokens:
  "split_whitespace ''proxy dsa alice azJoZWxw\<newline>help'' = [''proxy'', ''dsa'', ''alice'', ''azJoZWxw'', ''help'']"
  "split_whitespace ''proxy dsa alice c2ln'' = [''proxy'', ''dsa'', ''alice'', ''c2ln'']"
  "split_whitespace ''proxy dsa alice\<newline>help'' = [''proxy'', ''dsa'', ''alice'', ''help'']"
  "split_whitespace ''proxy rsa alice c2ln\<newline>help'' = [''proxy'', ''rsa'', ''alice'', ''c2ln'', ''help'']"
  "split_whitespace ''proxy dsa alice c2l\<newline>help'' = [''proxy'', ''dsa'', ''alice'', ''c2l'', ''help'']"
  by code_simp+

theorem proxy_ignores_outer_author_witness:
  "split_whitespace ''proxy dsa alice azJoZWxw\<newline>help'' =
     ''proxy'' # [''dsa'', ''alice'', ''azJoZWxw'', ''help''] \<and>
   process_proxy_command example_lib ''carol'' ''proxy dsa alice azJoZWxw\<newline>help'' example_server =
     process_proxy_command example_lib ''root'' ''proxy dsa alice azJoZWxw\<newline>help'' example_server \<and>
   process_command example_lib ''carol'' ''proxy dsa alice azJoZWxw\<newline>help'' example_server =
     process_command example_lib ''root'' ''proxy dsa alice azJoZWxw\<newline>help'' example_server"
  using proxy_ignores_outer_author [of example_lib "''carol''" "''proxy dsa alice azJoZWxw\<newline>help''"
      example_server "''root''" "[''dsa'', ''alice'', ''azJoZWxw'', ''help'']"]
  by (simp add: example_proxy_tokens)

section \<open>The cases of the envelope parser\<close>

lemma parse_impl_cases:
  "CHR 0x0A \<notin> set message \<Longrightarrow> parse_impl L message = Inr None"
  "split_once (CHR 0x0A) message = [header, body] \<Longrightarrow> length (split_whitespace header) \<noteq> 4 \<Longrightarrow>
     parse_impl L message = Inr None"
  "split_once (CHR 0x0A) message = [header, body] \<Longrightarrow>
     split_whitespace header = [marker, protocol, name, enc] \<Longrightarrow> protocol \<noteq> ''dsa'' \<Longrightarrow>
     parse_impl L message = Inr None"
  "split_once (CHR 0x0A) message = [header, body] \<Longrightarrow>
     split_whitespace header = [marker, ''dsa'', name, enc] \<Longrightarrow> b64decode L enc = Inl e \<Longrightarrow>
     parse_impl L message = Inl (CommandException (''Invalid signature. '' @ e))"
  "split_once (CHR 0x0A) message = [header, body] \<Longrightarrow>
     split_whitespace header = [marker, ''dsa'', name, enc] \<Longrightarrow> b64decode L enc = Inr signature \<Longrightarrow>
     parse_impl L message = Inr (Some (name, signature, strip_chars [CHR 0x0A, CHR 0x0D] body))"
proof -
  show "CHR 0x0A \<notin> set message \<Longrightarrow> parse_impl L message = Inr None"
    by (simp add: parse_impl_def split_once_def)
  show "split_once (CHR 0x0A) message = [header, body] \<Longrightarrow> length (split_whitespace header) \<noteq> 4 \<Longrightarrow>
     parse_impl L message = Inr None"
    by (auto simp: parse_impl_def Let_def split: list.splits)
  show "split_once (CHR 0x0A) message = [header, body] \<Longrightarrow>
     split_whitespace header = [marker, protocol, name, enc] \<Longrightarrow> protocol \<noteq> ''dsa'' \<Longrightarrow>
     parse_impl L message = Inr None"
    by (simp add: parse_impl_def Let_def)
  show "split_once (CHR 0x0A) message = [header, body] \<Longrightarrow>
     split_whitespace header = [marker, ''dsa'', name, enc] \<Longrightarrow> b64decode L enc = Inl e \<Longrightarrow>
     parse_impl L message = Inl (CommandException (''Invalid signature. '' @ e))"
    by (simp add: parse_impl_def Let_def)
  show "split_once (CHR 0x0A) message = [header, body] \<Longrightarrow>
     split_whitespace header = [marker, ''dsa'', name, enc] \<Longrightarrow> b64decode L enc = Inr signature \<Longrightarrow>
     parse_impl L message = Inr (Some (name, signature, strip_chars [CHR 0x0A, CHR 0x0D] body))"
    by (simp add: parse_impl_def Let_def)
qed

section \<open>Transfers\<close>

lemma perform_transfer_requests:
  assumes "accounts server author_name = Some author"
    and "accounts server sender_name = Some sender"
    and "accounts server destination_name = Some dest"
  shows "perform_transfer author_name sender_name destination_name amount server =
     (if can_transfer server sender dest amount
      then (Inr (''Transfer performed successfully.'' @
                 (case transfer_proof server author sender dest amount of
                    Some p \<Rightarrow> '' Proof: '' @ p @ ''.''
                  | None \<Rightarrow> [])),
            server\<lparr>requests := requests server @
              [Can_transfer sender dest amount, Transfer author sender dest amount]\<rparr>)
      else (Inr ''Sorry, but I can't perform that transfer.'',
            server\<lparr>requests := requests server @ [Can_transfer sender dest amount]\<rparr>))"
  using assms by (simp add: perform_transfer_def assert_is_account_def send_def Let_def)

text \<open>
  C5. A transfer message of three tokens whose amount \<open>int\<close> accepts, sent by an existing
  account to an existing account, is \<open>perform_transfer\<close> with the author as acting account
  and as sender; and \<open>perform_transfer\<close> on three existing accounts first asks
  \<open>can_transfer\<close> for exactly that sender, recipient and amount, and asks for the transfer,
  with the same parties and amount, right after and only when the answer was true. The
  requests are appended to the log in call order. The statement holds for every integer
  amount, the positive ones among them.
\<close>

theorem transfer_asks_can_transfer_first:
  "(split_whitespace message = [c, a, destination_name] \<and> py_int a = Some amount \<longrightarrow>
      process_transfer author_name message server =
        perform_transfer author_name author_name destination_name amount server) \<and>
   (accounts server author_name = Some author \<and> accounts server sender_name = Some sender \<and>
    accounts server destination_name = Some dest \<longrightarrow>
      perform_transfer author_name sender_name destination_name amount server =
        (if can_transfer server sender dest amount
         then (Inr (''Transfer performed successfully.'' @
                    (case transfer_proof server author sender dest amount of
                       Some p \<Rightarrow> '' Proof: '' @ p @ ''.''
                     | None \<Rightarrow> [])),
               server\<lparr>requests := requests server @
                 [Can_transfer sender dest amount, Transfer author sender dest amount]\<rparr>)
         else (Inr ''Sorry, but I can't perform that transfer.'',
               server\<lparr>requests := requests server @ [Can_transfer sender dest amount]\<rparr>)))"
proof (intro conjI impI)
  assume "split_whitespace message = [c, a, destination_name] \<and> py_int a = Some amount"
  then show "process_transfer author_name message server =
      perform_transfer author_name author_name destination_name amount server"
    by (simp add: process_transfer_def parse_transfer_command_def)
next
  assume "accounts server author_name = Some author \<and> accounts server sender_name = Some sender \<and>
    accounts server destination_name = Some dest"
  then show "perform_transfer author_name sender_name destination_name amount server =
        (if can_transfer server sender dest amount
         then (Inr (''Transfer performed successfully.'' @
                    (case transfer_proof server author sender dest amount of
                       Some p \<Rightarrow> '' Proof: '' @ p @ ''.''
                     | None \<Rightarrow> [])),
               server\<lparr>requests := requests server @
                 [Can_transfer sender dest amount, Transfer author sender dest amount]\<rparr>)
         else (Inr ''Sorry, but I can't perform that transfer.'',
               server\<lparr>requests := requests server @ [Can_transfer sender dest amount]\<rparr>))"
    using perform_transfer_requests by simp
qed

lemma example_transfers:
  "split_whitespace ''transfer 10 bob'' = [''transfer'', ''10'', ''bob'']"
  "split_whitespace ''transfer 1000 bob'' = [''transfer'', ''1000'', ''bob'']"
  "py_int ''10'' = Some 10" "py_int ''1000'' = Some 1000"
  by code_simp+

lemma example_engine:
  "can_transfer example_server alice bob 10"
  "\<not> can_transfer example_server alice bob 1000"
  "transfer_proof example_server alice alice bob 10 = None"
  by (simp_all add: example_server_def alice_def)

theorem transfer_asks_can_transfer_first_witness:
  "split_whitespace ''transfer 10 bob'' = [''transfer'', ''10'', ''bob''] \<and> py_int ''10'' = Some 10 \<and>
   accounts example_server ''alice'' = Some alice \<and> accounts example_server ''bob'' = Some bob \<and>
   can_transfer example_server alice bob 10 \<and>
   process_transfer ''alice'' ''transfer 10 bob'' example_server =
     (Inr ''Transfer performed successfully.'',
      example_server\<lparr>requests := [Can_transfer alice bob 10, Transfer alice alice bob 10]\<rparr>) \<and>
   split_whitespace ''transfer 1000 bob'' = [''transfer'', ''1000'', ''bob''] \<and>
   py_int ''1000'' = Some 1000 \<and>
   \<not> can_transfer example_server alice bob 1000 \<and>
   process_transfer ''alice'' ''transfer 1000 bob'' example_server =
     (Inr ''Sorry, but I can't perform that transfer.'',
      example_server\<lparr>requests := [Can_transfer alice bob 1000]\<rparr>)"
  using transfer_asks_can_transfer_first [of "''transfer 10 bob''" "''transfer''" "''10''" "''bob''" 10
      "''alice''" example_server alice "''alice''" alice bob]
    transfer_asks_can_transfer_first [of "''transfer 1000 bob''" "''transfer''" "''1000''" "''bob''" 1000
      "''alice''" example_server alice "''alice''" alice bob]
  by (simp add: example_transfers example_engine example_server_fields)

section \<open>The authorization gate\<close>

lemma gate_denies:
  assumes "split_whitespace message = first # rest"
    and "map_of COMMANDS first = Some (usage, description, h, Some level)"
    and "auth_value CITIZEN < auth_value level"
  shows "accounts server author = None \<Longrightarrow>
      process_command L author message server =
        (''Sorry, I can't process your request because `'' @ author @
         ''` does not have an account yet.'', server)"
    and "accounts server author = Some account \<Longrightarrow>
      auth_value (get_authorization account) < auth_value level \<Longrightarrow>
      process_command L author message server =
        (''Sorry, I can't process your request because `'' @ author @
         ''` does not have the required authorization.'', server)"
  using assms
  by (subst process_command.simps, simp add: assert_authorized_def assert_is_account_def)+

lemma list_entry:
  "map_of COMMANDS ''list'' =
     Some (''list'', ''lists all accounts and the balance on the accounts.'',
           Process_list_accounts, Some ADMIN)"
  by (simp add: COMMANDS_def)

lemma example_list_tokens: "split_whitespace ''list'' = ''list'' # []"
  by code_simp

text \<open>
  C2, as the code has it. For a command of the table whose minimum level is above CITIZEN,
  \<open>process_command\<close> replies to an author without an account that the author
  \<open>does not have an account yet\<close>, and to an author whose account is below the minimum
  level that the author \<open>does not have the required authorization\<close>. The two denials
  differ and name their cause. In both cases the handler is not called and the server is
  returned as it was.
\<close>

theorem gate_denial_names_cause:
  assumes "split_whitespace message = first # rest"
    and "map_of COMMANDS first = Some (usage, description, h, Some level)"
    and "auth_value CITIZEN < auth_value level"
  shows
    "(accounts server author = None \<longrightarrow>
        process_command L author message server =
          (''Sorry, I can't process your request because `'' @ author @
           ''` does not have an account yet.'', server)) \<and>
     (accounts server author = Some account \<and>
      auth_value (get_authorization account) < auth_value level \<longrightarrow>
        process_command L author message server =
          (''Sorry, I can't process your request because `'' @ author @
           ''` does not have the required authorization.'', server))"
  using gate_denies [OF assms] by simp

theorem gate_denial_names_cause_witness:
  "split_whitespace ''list'' = ''list'' # [] \<and>
   map_of COMMANDS ''list'' =
     Some (''list'', ''lists all accounts and the balance on the accounts.'',
           Process_list_accounts, Some ADMIN) \<and>
   auth_value CITIZEN < auth_value ADMIN \<and>
   accounts example_server ''carol'' = None \<and>
   process_command example_lib ''carol'' ''list'' example_server =
     (''Sorry, I can't process your request because `carol` does not have an account yet.'',
      example_server) \<and>
   accounts example_server ''bob'' = Some bob \<and>
   auth_value (get_authorization bob) < auth_value ADMIN \<and>
   process_command example_lib ''bob'' ''list'' example_server =
     (''Sorry, I can't process your request because `bob` does not have the required authorization.'',
      example_server)"
  using gate_denial_names_cause [OF example_list_tokens list_entry, of example_server "''carol''"
      example_lib bob]
    gate_denial_names_cause [OF example_list_tokens list_entry, of example_server "''bob''"
      example_lib bob]
  by (simp add: example_list_tokens list_entry example_server_fields example_account_fields)

text \<open>
  The claim of C2 as the specification states it, that the two denials are the same text,
  fails: the same author sending \<open>list\<close> gets one text while no account of that name
  exists and another once an account of that name exists at the level CITIZEN.
\<close>

theorem gate_denial_counterexample:
  "accounts example_server ''carol'' = None \<and>
   fst (process_command example_lib ''carol'' ''list'' example_server) =
     ''Sorry, I can't process your request because `carol` does not have an account yet.'' \<and>
   accounts (example_server\<lparr>accounts := (accounts example_server)(''carol'' \<mapsto> bob)\<rparr>) ''carol'' = Some bob \<and>
   get_authorization bob = CITIZEN \<and>
   fst (process_command example_lib ''carol'' ''list''
          (example_server\<lparr>accounts := (accounts example_server)(''carol'' \<mapsto> bob)\<rparr>)) =
     ''Sorry, I can't process your request because `carol` does not have the required authorization.'' \<and>
   fst (process_command example_lib ''carol'' ''list'' example_server) \<noteq>
   fst (process_command example_lib ''carol'' ''list''
          (example_server\<lparr>accounts := (accounts example_server)(''carol'' \<mapsto> bob)\<rparr>))"
proof -
  have adm: "auth_value CITIZEN < auth_value ADMIN" by simp
  have a: "accounts (example_server\<lparr>accounts := (accounts example_server)(''carol'' \<mapsto> bob)\<rparr>) ''carol'' = Some bob"
    by simp
  have b: "auth_value (get_authorization bob) < auth_value ADMIN"
    by (simp add: example_account_fields)
  show ?thesis
    using gate_denies(1) [OF example_list_tokens list_entry adm example_server_fields(5), of example_lib]
      gate_denies(2) [OF example_list_tokens list_entry adm a b, of example_lib]
    by (simp add: example_server_fields example_account_fields)
qed

section \<open>The command listing\<close>

lemma COMMANDS_keys:
  "map fst COMMANDS =
     [''help'', ''transfer'', ''open'', ''balance'', ''add-public-key'', ''proxy'', ''authorize'',
      ''admin-transfer'', ''list'', ''print-money'', ''admin-create-recurring-transfer'', ''admin-open'']"
  by (simp add: COMMANDS_def)

lemma COMMANDS_distinct: "distinct (map fst COMMANDS)"
  unfolding COMMANDS_keys by simp

lemma filter_sort_sorted_list_of_set:
  fixes xs :: "'a::linorder list"
  assumes "distinct xs"
  shows "filter P (sort xs) = sorted_list_of_set {x \<in> set xs. P x}"
proof (rule sorted_distinct_set_unique)
  show "sorted (filter P (sort xs))" by (simp add: sorted_wrt_filter)
  show "distinct (filter P (sort xs))" using assms by simp
  show "sorted (sorted_list_of_set {x \<in> set xs. P x})" by simp
  show "distinct (sorted_list_of_set {x \<in> set xs. P x})" by simp
  show "set (filter P (sort xs)) = set (sorted_list_of_set {x \<in> set xs. P x})" by auto
qed

text \<open>
  C8. The listing for a caller has one line, \<open>`usage` &ndash; description\<close>, for each of
  exactly those entries of the table whose minimum level is at most the caller's level,
  which is the level of the caller's account and CITIZEN for a caller without an account;
  the entries without a minimum level are among them for every caller. The lines stand in
  increasing order of the command names, each once. The listing reads the server without
  changing it and depends on the caller through the level only, so that two listings for
  the same level are the same sequence: the six lines below for the level CITIZEN, the
  twelve lines below for every other level.
\<close>

theorem listing_sorted_and_filtered:
  fixes author :: string and server :: server and level :: Authorization
  defines "level \<equiv>
    (case accounts server author of Some account \<Rightarrow> get_authorization account | None \<Rightarrow> CITIZEN)"
  shows
    "list_commands author server =
       map (\<lambda>key. case map_of COMMANDS key of
                     Some (usage, description, _, _) \<Rightarrow> ''`'' @ usage @ ''` &ndash; '' @ description
                   | None \<Rightarrow> [])
         (sorted_list_of_set
            {key \<in> fst ` set COMMANDS.
               case map_of COMMANDS key of
                 Some (_, _, _, Some minimum) \<Rightarrow> auth_value minimum \<le> auth_value level
               | _ \<Rightarrow> True}) \<and>
     ((case accounts server' author' of Some account \<Rightarrow> get_authorization account | None \<Rightarrow> CITIZEN) =
        level \<longrightarrow>
        list_commands author' server' = list_commands author server) \<and>
     (level = CITIZEN \<longrightarrow>
        list_commands author server =
          [''`add-public-key` &ndash; associates an ECC public key with your account. The pub'' @
           ''lic key should be encoded as the contents of a PEM file that is placed on a line'' @
           '' after the command itself.'',
           ''`balance` &ndash; prints the balance on your account.'',
           ''`help` &ndash; prints a help message.'',
           ''`open` &ndash; opens a new account.'',
           ''`proxy dsa PROXIED_ACCOUNT SIGNATURE` &ndash; makes PROXIED_ACCOUNT describes th'' @
           ''e action described in the remainder of the message (starting on the next line). '' @
           ''SIGNATURE must be an ECDSA-signed SHA3-512 hash of the remainder of the message,'' @
           '' where the key that signs the message must have its public key associated with t'' @
           ''he proxied account. This command allows a user or application to safely perform '' @
           ''actions on an account holder's behalf.'',
           ''`transfer AMOUNT BENEFICIARY` &ndash; transfers AMOUNT to user BENEFICIARY's acc'' @
           ''ount.'']) \<and>
     (level \<noteq> CITIZEN \<longrightarrow>
        list_commands author server =
          [''`add-public-key` &ndash; associates an ECC public key with your account. The pub'' @
           ''lic key should be encoded as the contents of a PEM file that is placed on a line'' @
           '' after the command itself.'',
           ''`admin-create-recurring-transfer AMOUNT_PER_TICK SENDER BENEFICIARY TICK_COUNT` '' @
           ''&ndash; creates a transfer that will transfer AMOUNT_PER_TICK from SENDER to BEN'' @
           ''EFICIARY every tick, for TICK_COUNT ticks.'',
           ''`admin-open ACCOUNT_NAME` &ndash; opens a new account with a particular name. If'' @
           '' a user has ACCOUNT_NAME, then the newly created account will become that user's'' @
           '' account.'',
           ''`admin-transfer AMOUNT SENDER BENEFICIARY` &ndash; transfers AMOUNT from SENDER '' @
           ''to BENEFICIARY.'',
           ''`authorize ACCOUNT citizen|admin|developer` &ndash; sets an account's authorizat'' @
           ''ion.'',
           ''`balance` &ndash; prints the balance on your account.'',
           ''`help` &ndash; prints a help message.'',
           ''`list` &ndash; lists all accounts and the balance on the accounts.'',
           ''`open` &ndash; opens a new account.'',
           ''`print-money AMOUNT BENEFICIARY` &ndash; generates AMOUNT money and deposits it '' @
           ''in BENEFICIARY's account.'',
           ''`proxy dsa PROXIED_ACCOUNT SIGNATURE` &ndash; makes PROXIED_ACCOUNT describes th'' @
           ''e action described in the remainder of the message (starting on the next line). '' @
           ''SIGNATURE must be an ECDSA-signed SHA3-512 hash of the remainder of the message,'' @
           '' where the key that signs the message must have its public key associated with t'' @
           ''he proxied account. This command allows a user or application to safely perform '' @
           ''actions on an account holder's behalf.'',
           ''`transfer AMOUNT BENEFICIARY` &ndash; transfers AMOUNT to user BENEFICIARY's acc'' @
           ''ount.''])"
proof (intro conjI impI)
  have gl: "get_authorization_or_citizen author server = level"
    by (simp add: get_authorization_or_citizen_def level_def)
  have ct: "command_text = (\<lambda>key. case map_of COMMANDS key of
                     Some (usage, description, _, _) \<Rightarrow> ''`'' @ usage @ ''` &ndash; '' @ description
                   | None \<Rightarrow> [])"
    by (rule ext) (simp add: command_text_def split: option.splits)
  have "filter (\<lambda>key. case map_of COMMANDS key of
                         Some (_, _, _, None) \<Rightarrow> True
                       | Some (_, _, _, Some minimum) \<Rightarrow> auth_value level \<ge> auth_value minimum
                       | None \<Rightarrow> False)
               (sort (map fst COMMANDS)) =
        sorted_list_of_set
          {key \<in> set (map fst COMMANDS).
             case map_of COMMANDS key of
               Some (_, _, _, None) \<Rightarrow> True
             | Some (_, _, _, Some minimum) \<Rightarrow> auth_value level \<ge> auth_value minimum
             | None \<Rightarrow> False}"
    by (rule filter_sort_sorted_list_of_set [OF COMMANDS_distinct])
  also have "{key \<in> set (map fst COMMANDS).
             case map_of COMMANDS key of
               Some (_, _, _, None) \<Rightarrow> True
             | Some (_, _, _, Some minimum) \<Rightarrow> auth_value level \<ge> auth_value minimum
             | None \<Rightarrow> False} =
          {key \<in> fst ` set COMMANDS.
             case map_of COMMANDS key of
               Some (_, _, _, Some minimum) \<Rightarrow> auth_value minimum \<le> auth_value level
             | _ \<Rightarrow> True}"
    by (auto simp: map_of_eq_None_iff split: option.splits)
  finally show "list_commands author server =
       map (\<lambda>key. case map_of COMMANDS key of
                     Some (usage, description, _, _) \<Rightarrow> ''`'' @ usage @ ''` &ndash; '' @ description
                   | None \<Rightarrow> [])
         (sorted_list_of_set
            {key \<in> fst ` set COMMANDS.
               case map_of COMMANDS key of
                 Some (_, _, _, Some minimum) \<Rightarrow> auth_value minimum \<le> auth_value level
               | _ \<Rightarrow> True})"
    unfolding list_commands_def gl ct by simp
  have same: "list_commands author' server' = list_commands author server"
    if "get_authorization_or_citizen author' server' = level"
    unfolding list_commands_def gl that ..
  show "list_commands author' server' = list_commands author server"
    if "(case accounts server' author' of Some account \<Rightarrow> get_authorization account | None \<Rightarrow> CITIZEN) =
        level"
    using that by (intro same) (simp add: get_authorization_or_citizen_def)
  have keys: "sort (map fst COMMANDS) =
      [''add-public-key'', ''admin-create-recurring-transfer'', ''admin-open'', ''admin-transfer'', ''authorize'', ''balance'', ''help'', ''list'', ''open'', ''print-money'', ''proxy'', ''transfer'']"
    unfolding COMMANDS_keys by code_simp
  show "list_commands author server =
          [''`add-public-key` &ndash; associates an ECC public key with your account. The pub'' @
           ''lic key should be encoded as the contents of a PEM file that is placed on a line'' @
           '' after the command itself.'',
           ''`balance` &ndash; prints the balance on your account.'',
           ''`help` &ndash; prints a help message.'',
           ''`open` &ndash; opens a new account.'',
           ''`proxy dsa PROXIED_ACCOUNT SIGNATURE` &ndash; makes PROXIED_ACCOUNT describes th'' @
           ''e action described in the remainder of the message (starting on the next line). '' @
           ''SIGNATURE must be an ECDSA-signed SHA3-512 hash of the remainder of the message,'' @
           '' where the key that signs the message must have its public key associated with t'' @
           ''he proxied account. This command allows a user or application to safely perform '' @
           ''actions on an account holder's behalf.'',
           ''`transfer AMOUNT BENEFICIARY` &ndash; transfers AMOUNT to user BENEFICIARY's acc'' @
           ''ount.'']"
    if "level = CITIZEN"
    unfolding list_commands_def gl keys that
    by (simp add: COMMANDS_def command_text_def)
  show "list_commands author server =
          [''`add-public-key` &ndash; associates an ECC public key with your account. The pub'' @
           ''lic key should be encoded as the contents of a PEM file that is placed on a line'' @
           '' after the command itself.'',
           ''`admin-create-recurring-transfer AMOUNT_PER_TICK SENDER BENEFICIARY TICK_COUNT` '' @
           ''&ndash; creates a transfer that will transfer AMOUNT_PER_TICK from SENDER to BEN'' @
           ''EFICIARY every tick, for TICK_COUNT ticks.'',
           ''`admin-open ACCOUNT_NAME` &ndash; opens a new account with a particular name. If'' @
           '' a user has ACCOUNT_NAME, then the newly created account will become that user's'' @
           '' account.'',
           ''`admin-transfer AMOUNT SENDER BENEFICIARY` &ndash; transfers AMOUNT from SENDER '' @
           ''to BENEFICIARY.'',
           ''`authorize ACCOUNT citizen|admin|developer` &ndash; sets an account's authorizat'' @
           ''ion.'',
           ''`balance` &ndash; prints the balance on your account.'',
           ''`help` &ndash; prints a help message.'',
           ''`list` &ndash; lists all accounts and the balance on the accounts.'',
           ''`open` &ndash; opens a new account.'',
           ''`print-money AMOUNT BENEFICIARY` &ndash; generates AMOUNT money and deposits it '' @
           ''in BENEFICIARY's account.'',
           ''`proxy dsa PROXIED_ACCOUNT SIGNATURE` &ndash; makes PROXIED_ACCOUNT describes th'' @
           ''e action described in the remainder of the message (starting on the next line). '' @
           ''SIGNATURE must be an ECDSA-signed SHA3-512 hash of the remainder of the message,'' @
           '' where the key that signs the message must have its public key associated with t'' @
           ''he proxied account. This command allows a user or application to safely perform '' @
           ''actions on an account holder's behalf.'',
           ''`transfer AMOUNT BENEFICIARY` &ndash; transfers AMOUNT to user BENEFICIARY's acc'' @
           ''ount.'']"
    if "level \<noteq> CITIZEN"
  proof -
    from that have "auth_value ADMIN \<le> auth_value level" by (cases level) auto
    then show ?thesis
      unfolding list_commands_def gl keys
      by (simp add: COMMANDS_def command_text_def)
  qed
qed

theorem listing_sorted_and_filtered_witness:
  "accounts example_server ''carol'' = None \<and>
   list_commands ''carol'' example_server =
     [''`add-public-key` &ndash; associates an ECC public key with your account. The pub'' @
      ''lic key should be encoded as the contents of a PEM file that is placed on a line'' @
      '' after the command itself.'',
      ''`balance` &ndash; prints the balance on your account.'',
      ''`help` &ndash; prints a help message.'',
      ''`open` &ndash; opens a new account.'',
      ''`proxy dsa PROXIED_ACCOUNT SIGNATURE` &ndash; makes PROXIED_ACCOUNT describes th'' @
      ''e action described in the remainder of the message (starting on the next line). '' @
      ''SIGNATURE must be an ECDSA-signed SHA3-512 hash of the remainder of the message,'' @
      '' where the key that signs the message must have its public key associated with t'' @
      ''he proxied account. This command allows a user or application to safely perform '' @
      ''actions on an account holder's behalf.'',
      ''`transfer AMOUNT BENEFICIARY` &ndash; transfers AMOUNT to user BENEFICIARY's acc'' @
      ''ount.''] \<and>
   accounts example_server ''bob'' = Some bob \<and> get_authorization bob = CITIZEN \<and>
   list_commands ''bob'' example_server = list_commands ''carol'' example_server \<and>
   accounts example_server ''root'' = Some root \<and> get_authorization root = ADMIN \<and>
   list_commands ''root'' example_server =
     [''`add-public-key` &ndash; associates an ECC public key with your account. The pub'' @
      ''lic key should be encoded as the contents of a PEM file that is placed on a line'' @
      '' after the command itself.'',
      ''`admin-create-recurring-transfer AMOUNT_PER_TICK SENDER BENEFICIARY TICK_COUNT` '' @
      ''&ndash; creates a transfer that will transfer AMOUNT_PER_TICK from SENDER to BEN'' @
      ''EFICIARY every tick, for TICK_COUNT ticks.'',
      ''`admin-open ACCOUNT_NAME` &ndash; opens a new account with a particular name. If'' @
      '' a user has ACCOUNT_NAME, then the newly created account will become that user's'' @
      '' account.'',
      ''`admin-transfer AMOUNT SENDER BENEFICIARY` &ndash; transfers AMOUNT from SENDER '' @
      ''to BENEFICIARY.'',
      ''`authorize ACCOUNT citizen|admin|developer` &ndash; sets an account's authorizat'' @
      ''ion.'',
      ''`balance` &ndash; prints the balance on your account.'',
      ''`help` &ndash; prints a help message.'',
      ''`list` &ndash; lists all accounts and the balance on the accounts.'',
      ''`open` &ndash; opens a new account.'',
      ''`print-money AMOUNT BENEFICIARY` &ndash; generates AMOUNT money and deposits it '' @
      ''in BENEFICIARY's account.'',
      ''`proxy dsa PROXIED_ACCOUNT SIGNATURE` &ndash; makes PROXIED_ACCOUNT describes th'' @
      ''e action described in the remainder of the message (starting on the next line). '' @
      ''SIGNATURE must be an ECDSA-signed SHA3-512 hash of the remainder of the message,'' @
      '' where the key that signs the message must have its public key associated with t'' @
      ''he proxied account. This command allows a user or application to safely perform '' @
      ''actions on an account holder's behalf.'',
      ''`transfer AMOUNT BENEFICIARY` &ndash; transfers AMOUNT to user BENEFICIARY's acc'' @
      ''ount.'']"
  using listing_sorted_and_filtered [where server = example_server and author = "''carol''"
      and server' = example_server and author' = "''bob''", THEN conjunct2, THEN conjunct1]
    listing_sorted_and_filtered [where server = example_server and author = "''carol''"
      and server' = example_server and author' = "''bob''",
      THEN conjunct2, THEN conjunct2, THEN conjunct1]
    listing_sorted_and_filtered [where server = example_server and author = "''root''"
      and server' = example_server and author' = "''root''",
      THEN conjunct2, THEN conjunct2, THEN conjunct2]
  by (simp add: example_server_fields example_account_fields)

section \<open>Composing and decoding an envelope\<close>

lemma compose_proxy_command_parts:
  "compose_proxy_command L name key body =
     (''proxy dsa '' @ name @ '' '' @
        b64encode L (dss_sign L key (sha3_512 L (encode_utf8 (strip body))))) @
     CHR 0x0A # strip body"
  by (simp add: compose_proxy_command_def Let_def)

lemma parse_composed:
  fixes L :: lib and key :: ecc_key and body :: string and enc :: string
  defines "enc \<equiv> b64encode L (dss_sign L key (sha3_512 L (encode_utf8 (strip body))))"
  assumes "name \<noteq> []" and "\<forall>c\<in>set name. \<not> isspace_char c"
    and "enc \<noteq> []" and "\<forall>c\<in>set enc. \<not> isspace_char c"
    and "b64decode L enc = Inr signature"
  shows "parse_proxy_command L (compose_proxy_command L name key body) =
     Inr (name, signature, strip body)"
proof -
  have nl: "isspace_char (CHR 0x0A)" by (simp add: isspace_char_def)
  with assms(3,5) have "CHR 0x0A \<notin> set (''proxy dsa '' @ name @ '' '' @ enc)"
    by auto
  then have line: "split_once (CHR 0x0A) (compose_proxy_command L name key body) =
      [''proxy dsa '' @ name @ '' '' @ enc, strip body]"
    unfolding compose_proxy_command_parts enc_def [symmetric] by (rule split_once_line)
  have toks: "split_whitespace (''proxy dsa '' @ name @ '' '' @ enc) = [''proxy'', ''dsa'', name, enc]"
    using assms(2-5) by (rule split_tokens_proxy_header)
  have "parse_impl L (compose_proxy_command L name key body) = Inr (Some (name, signature, strip body))"
    unfolding parse_impl_def line
    by (simp add: toks assms(6) Let_def strip_chars_strip del: append.simps)
  then show ?thesis by (simp add: parse_proxy_command_def)
qed

text \<open>
  C1, as the code has it. Let the proxied account's name be one token (not empty, no
  whitespace), let the encoded signature be one token that decodes to the signature, and
  let the account exist. Then decoding the composed envelope recovers the account name, the
  signature, and as inner command exactly the text that was signed, the body with the
  whitespace stripped from both ends. If, among the account's registered keys, the
  signature verifies under the public key of the signing key and under no other, then
  \<open>process_proxy_command\<close> on the composed envelope returns normally, with the reply of the
  inner command dispatched as the proxied account, if and only if that public key is
  registered with the account; otherwise it raises the \<open>CommandException\<close> for an invalid
  signature and asks nothing of the accounting server.
\<close>

theorem proxy_round_trip:
  fixes L :: lib and key :: ecc_key and body :: string and account :: account
    and command :: string and h :: string and signature :: string and enc :: string
    and keys :: "ecc_key list"
  defines "command \<equiv> strip body"
    and "h \<equiv> sha3_512 L (encode_utf8 command)"
    and "signature \<equiv> dss_sign L key h"
    and "enc \<equiv> b64encode L signature"
    and "keys \<equiv> list_public_keys account"
  assumes "name \<noteq> []" and "\<forall>c\<in>set name. \<not> isspace_char c"
    and "enc \<noteq> []" and "\<forall>c\<in>set enc. \<not> isspace_char c"
    and "b64decode L enc = Inr signature"
    and "accounts server name = Some account"
    and "\<forall>k\<in>set keys. dss_verify L k h signature = (k = public_key)"
  shows
    "parse_proxy_command L (compose_proxy_command L name key body) = Inr (name, signature, command) \<and>
     ((\<exists>reply server2.
         process_proxy_command L author (compose_proxy_command L name key body) server =
           (Inr reply, server2)) = (public_key \<in> set keys)) \<and>
     (public_key \<in> set keys \<longrightarrow>
        process_proxy_command L author (compose_proxy_command L name key body) server =
          (case process_command L name command
                  (server\<lparr>verifications := verifications server @
                     map (\<lambda>k. (k, h, signature))
                       (takeWhile (\<lambda>k. k \<noteq> public_key) keys @ [public_key])\<rparr>) of
             (reply, server2) \<Rightarrow> (Inr reply, server2))) \<and>
     (public_key \<notin> set keys \<longrightarrow>
        process_proxy_command L author (compose_proxy_command L name key body) server =
          (Inl (CommandException ''Cannot execute command by proxy because the signature is invalid.''),
           server\<lparr>verifications := verifications server @ map (\<lambda>k. (k, h, signature)) keys\<rparr>))"
proof -
  have parse: "parse_proxy_command L (compose_proxy_command L name key body) =
      Inr (name, signature, command)"
    using assms(6-10) unfolding enc_def signature_def h_def command_def by (rule parse_composed)
  have tw: "takeWhile (\<lambda>k. \<not> dss_verify L k h signature) keys = takeWhile (\<lambda>k. k \<noteq> public_key) keys"
    using assms(12) by (intro takeWhile_cong) auto
  have dw: "dropWhile (\<lambda>k. \<not> dss_verify L k h signature) keys = dropWhile (\<lambda>k. k \<noteq> public_key) keys"
    using assms(12) by (intro dropWhile_cong) auto
  have ex: "(\<exists>k\<in>set keys. dss_verify L k h signature) = (public_key \<in> set keys)"
    using assms(12) by auto
  have run: "process_proxy_command L author (compose_proxy_command L name key body) server =
     (if public_key \<in> set keys
      then (case process_command L name command
                  (server\<lparr>verifications := verifications server @
                     map (\<lambda>k. (k, h, signature))
                       (takeWhile (\<lambda>k. k \<noteq> public_key) keys @
                        take 1 (dropWhile (\<lambda>k. k \<noteq> public_key) keys))\<rparr>) of
             (reply, server2) \<Rightarrow> (Inr reply, server2))
      else (Inl (CommandException ''Cannot execute command by proxy because the signature is invalid.''),
            server\<lparr>verifications := verifications server @
              map (\<lambda>k. (k, h, signature))
                (takeWhile (\<lambda>k. k \<noteq> public_key) keys @
                 take 1 (dropWhile (\<lambda>k. k \<noteq> public_key) keys))\<rparr>))"
    unfolding process_proxy_command_unfold [OF parse assms(11)] verify_keys_tried
      h_def [symmetric] keys_def [symmetric] tw dw ex
    by simp
  have first: "take 1 (dropWhile (\<lambda>k. k \<noteq> public_key) keys) = [public_key]"
    if "public_key \<in> set keys"
  proof -
    from that have ne: "dropWhile (\<lambda>k. k \<noteq> public_key) keys \<noteq> []"
      by (auto simp: dropWhile_eq_Nil_conv)
    then have "hd (dropWhile (\<lambda>k. k \<noteq> public_key) keys) = public_key"
      using hd_dropWhile [of "\<lambda>k. k \<noteq> public_key" keys] by simp
    with ne show ?thesis
      by (cases "dropWhile (\<lambda>k. k \<noteq> public_key) keys") auto
  qed
  have none: "takeWhile (\<lambda>k. k \<noteq> public_key) keys @ take 1 (dropWhile (\<lambda>k. k \<noteq> public_key) keys) = keys"
    if "public_key \<notin> set keys"
  proof -
    from that have "takeWhile (\<lambda>k. k \<noteq> public_key) keys = keys"
      and "dropWhile (\<lambda>k. k \<noteq> public_key) keys = []"
      by (auto simp: takeWhile_eq_all_conv)
    then show ?thesis by (simp only: take.simps append_Nil2)
  qed
  show ?thesis
  proof (intro conjI impI)
    show "parse_proxy_command L (compose_proxy_command L name key body) = Inr (name, signature, command)"
      by (rule parse)
    show "(\<exists>reply server2.
         process_proxy_command L author (compose_proxy_command L name key body) server =
           (Inr reply, server2)) = (public_key \<in> set keys)"
      unfolding run by (auto split: prod.splits)
    show "process_proxy_command L author (compose_proxy_command L name key body) server =
          (case process_command L name command
                  (server\<lparr>verifications := verifications server @
                     map (\<lambda>k. (k, h, signature))
                       (takeWhile (\<lambda>k. k \<noteq> public_key) keys @ [public_key])\<rparr>) of
             (reply, server2) \<Rightarrow> (Inr reply, server2))"
      if "public_key \<in> set keys"
      unfolding run using that first [OF that] by simp
    show "process_proxy_command L author (compose_proxy_command L name key body) server =
          (Inl (CommandException ''Cannot execute command by proxy because the signature is invalid.''),
           server\<lparr>verifications := verifications server @ map (\<lambda>k. (k, h, signature)) keys\<rparr>)"
      if "public_key \<notin> set keys"
      unfolding run using that none [OF that] by simp
  qed
qed

lemma example_compose:
  "strip ''  transfer 10 bob  '' = ''transfer 10 bob''"
  "encode_utf8 ''transfer 10 bob'' = ''transfer 10 bob''"
  "python_b64encode ''k2transfer 10 bob'' = ''azJ0cmFuc2ZlciAxMCBib2I=''"
  "python_b64decode ''azJ0cmFuc2ZlciAxMCBib2I='' = Inr ''k2transfer 10 bob''"
  "python_b64encode ''k9transfer 10 bob'' = ''azl0cmFuc2ZlciAxMCBib2I=''"
  "python_b64decode ''azl0cmFuc2ZlciAxMCBib2I='' = Inr ''k9transfer 10 bob''"
  "strip ''help'' = ''help''"
  "python_b64encode ''k1help'' = ''azFoZWxw''"
  by code_simp+

lemma example_no_space:
  "\<not> (\<exists>c\<in>set ''alice''. isspace_char c)"
  "\<not> (\<exists>c\<in>set ''azJ0cmFuc2ZlciAxMCBib2I=''. isspace_char c)"
  "\<not> (\<exists>c\<in>set ''azl0cmFuc2ZlciAxMCBib2I=''. isspace_char c)"
  by (simp_all add: isspace_char_def)

lemma example_inner_transfer:
  "process_command example_lib ''alice'' ''transfer 10 bob''
     (example_server\<lparr>verifications :=
        [(''k1'', ''transfer 10 bob'', ''k2transfer 10 bob''),
         (''k2'', ''transfer 10 bob'', ''k2transfer 10 bob'')]\<rparr>) =
   (''Transfer performed successfully.'',
    example_server\<lparr>requests := [Can_transfer alice bob 10, Transfer alice alice bob 10],
      verifications :=
        [(''k1'', ''transfer 10 bob'', ''k2transfer 10 bob''),
         (''k2'', ''transfer 10 bob'', ''k2transfer 10 bob'')]\<rparr>)"
proof -
  have t: "split_whitespace ''transfer 10 bob'' = [''transfer'', ''10'', ''bob'']"
    "py_int ''10'' = Some 10"
    by code_simp+
  have e: "map_of COMMANDS ''transfer'' =
      Some (''transfer AMOUNT BENEFICIARY'', ''transfers AMOUNT to user BENEFICIARY's account.'',
            Process_transfer, None)"
    by (simp add: COMMANDS_def)
  show ?thesis
    by (subst process_command.simps)
       (simp add: t e call_handler.simps process_transfer_def parse_transfer_command_def
          perform_transfer_def assert_is_account_def send_def example_server_def alice_def bob_def)
qed

theorem proxy_round_trip_witness:
  "compose_proxy_command example_lib ''alice'' ''k2'' ''  transfer 10 bob  '' =
     ''proxy dsa alice azJ0cmFuc2ZlciAxMCBib2I=\<newline>transfer 10 bob'' \<and>
   \<not> (\<exists>c\<in>set ''alice''. isspace_char c) \<and>
   \<not> (\<exists>c\<in>set ''azJ0cmFuc2ZlciAxMCBib2I=''. isspace_char c) \<and>
   b64decode example_lib ''azJ0cmFuc2ZlciAxMCBib2I='' = Inr ''k2transfer 10 bob'' \<and>
   accounts example_server ''alice'' = Some alice \<and>
   list_all (\<lambda>k. dss_verify example_lib k ''transfer 10 bob'' ''k2transfer 10 bob'' = (k = ''k2''))
     (list_public_keys alice) \<and>
   ''k2'' \<in> set (list_public_keys alice) \<and>
   parse_proxy_command example_lib ''proxy dsa alice azJ0cmFuc2ZlciAxMCBib2I=\<newline>transfer 10 bob'' =
     Inr (''alice'', ''k2transfer 10 bob'', ''transfer 10 bob'') \<and>
   process_proxy_command example_lib ''carol''
       ''proxy dsa alice azJ0cmFuc2ZlciAxMCBib2I=\<newline>transfer 10 bob'' example_server =
     (Inr ''Transfer performed successfully.'',
      example_server\<lparr>requests := [Can_transfer alice bob 10, Transfer alice alice bob 10],
        verifications :=
          [(''k1'', ''transfer 10 bob'', ''k2transfer 10 bob''),
           (''k2'', ''transfer 10 bob'', ''k2transfer 10 bob'')]\<rparr>) \<and>
   compose_proxy_command example_lib ''alice'' ''k9'' ''  transfer 10 bob  '' =
     ''proxy dsa alice azl0cmFuc2ZlciAxMCBib2I=\<newline>transfer 10 bob'' \<and>
   list_all (\<lambda>k. dss_verify example_lib k ''transfer 10 bob'' ''k9transfer 10 bob'' = (k = ''k9''))
     (list_public_keys alice) \<and>
   ''k9'' \<notin> set (list_public_keys alice) \<and>
   process_proxy_command example_lib ''carol''
       ''proxy dsa alice azl0cmFuc2ZlciAxMCBib2I=\<newline>transfer 10 bob'' example_server =
     (Inl (CommandException ''Cannot execute command by proxy because the signature is invalid.''),
      example_server\<lparr>verifications :=
        [(''k1'', ''transfer 10 bob'', ''k9transfer 10 bob''),
         (''k2'', ''transfer 10 bob'', ''k9transfer 10 bob''),
         (''k3'', ''transfer 10 bob'', ''k9transfer 10 bob'')]\<rparr>)"
proof -
  have c2: "compose_proxy_command example_lib ''alice'' ''k2'' ''  transfer 10 bob  '' =
     ''proxy dsa alice azJ0cmFuc2ZlciAxMCBib2I=\<newline>transfer 10 bob''"
    by (simp add: compose_proxy_command_def example_lib_fields example_compose)
  have c9: "compose_proxy_command example_lib ''alice'' ''k9'' ''  transfer 10 bob  '' =
     ''proxy dsa alice azl0cmFuc2ZlciAxMCBib2I=\<newline>transfer 10 bob''"
    by (simp add: compose_proxy_command_def example_lib_fields example_compose)
  have name: "''alice'' \<noteq> []" "\<forall>c\<in>set ''alice''. \<not> isspace_char c"
    using example_no_space(1) by simp_all
  show ?thesis
    using proxy_round_trip [where L = example_lib and name = "''alice''" and key = "''k2''"
        and body = "''  transfer 10 bob  ''" and server = example_server and account = alice
        and public_key = "''k2''" and author = "''carol''", OF name]
      proxy_round_trip [where L = example_lib and name = "''alice''" and key = "''k9''"
        and body = "''  transfer 10 bob  ''" and server = example_server and account = alice
        and public_key = "''k9''" and author = "''carol''", OF name]
    unfolding c2 c9
    by (simp add: example_lib_fields example_compose example_server_fields example_account_fields
          isspace_char_def example_inner_transfer)
qed

text \<open>
  The claim of C1 as the specification states it, for every account, fails for an account
  whose name is not one token. The account \<open>ann lee\<close> exists and has the key \<open>k1\<close>
  registered; the envelope composed for it with that key carries the signed text unchanged
  and a signature that verifies under the registered key; yet its header has five tokens,
  and processing it raises the formatting error without any verification.
\<close>

theorem proxy_round_trip_counterexample:
  "accounts example_server ''ann lee'' = Some ann_lee \<and>
   ''k1'' \<in> set (list_public_keys ann_lee) \<and>
   dss_verify example_lib ''k1'' (sha3_512 example_lib (encode_utf8 (strip ''help'')))
     (dss_sign example_lib ''k1'' (sha3_512 example_lib (encode_utf8 (strip ''help'')))) \<and>
   compose_proxy_command example_lib ''ann lee'' ''k1'' ''help'' = ''proxy dsa ann lee azFoZWxw\<newline>help'' \<and>
   split_once (CHR 0x0A) ''proxy dsa ann lee azFoZWxw\<newline>help'' = [''proxy dsa ann lee azFoZWxw'', strip ''help''] \<and>
   process_proxy_command example_lib ''carol''
       (compose_proxy_command example_lib ''ann lee'' ''k1'' ''help'') example_server =
     (Inl (CommandException (''Invalid formatting; expected `proxy dsa PROXIED_ACCOUNT SIGNATURE` '' @
         ''followed by another command on the next line.'')), example_server)"
proof -
  have c: "compose_proxy_command example_lib ''ann lee'' ''k1'' ''help'' = ''proxy dsa ann lee azFoZWxw\<newline>help''"
    by (simp add: compose_proxy_command_def example_lib_fields example_compose example_utf8)
  have line: "split_once (CHR 0x0A) ''proxy dsa ann lee azFoZWxw\<newline>help'' = [''proxy dsa ann lee azFoZWxw'', ''help'']"
    by code_simp
  have toks: "length (split_whitespace ''proxy dsa ann lee azFoZWxw'') \<noteq> 4"
    by code_simp
  have "parse_proxy_command example_lib ''proxy dsa ann lee azFoZWxw\<newline>help'' =
      Inl (CommandException (''Invalid formatting; expected `proxy dsa PROXIED_ACCOUNT SIGNATURE` '' @
         ''followed by another command on the next line.''))"
    using parse_impl_cases(2) [OF line toks, of example_lib] by (simp add: parse_proxy_command_def)
  then have "process_proxy_command example_lib ''carol'' ''proxy dsa ann lee azFoZWxw\<newline>help'' example_server =
     (Inl (CommandException (''Invalid formatting; expected `proxy dsa PROXIED_ACCOUNT SIGNATURE` '' @
         ''followed by another command on the next line.'')), example_server)"
    by (rule process_proxy_command_malformed)
  then show ?thesis
    unfolding c
    by (simp add: line example_server_fields example_account_fields example_lib_fields example_compose)
qed

section \<open>Malformed envelopes\<close>

lemma b64_index_in_None: "(b64_index_in xs c = None) = (c \<notin> set xs)"
  by (induction xs) auto

lemma a2b_base64_skips:
  "a2b_base64 quad_pos leftchar pads out (filter (\<lambda>c. c \<in> set b64_alphabet \<or> c = CHR ''='') s) =
   a2b_base64 quad_pos leftchar pads out s"
proof (induction s arbitrary: quad_pos leftchar pads out)
  case Nil
  show ?case by simp
next
  case (Cons c cs)
  show ?case
  proof (cases "c \<in> set b64_alphabet \<or> c = CHR ''=''")
    case True
    then show ?thesis
      by (simp add: a2b_base64.simps(2) Cons split: option.splits)
  next
    case False
    then have "b64_index_in b64_alphabet c = None" by (simp add: b64_index_in_None)
    with False show ?thesis
      by (simp add: a2b_base64.simps(2) [of _ _ _ _ c cs] Cons)
  qed
qed

lemma python_b64decode_skips:
  assumes "list_all (\<lambda>c. (of_char c :: nat) < 128) enc"
  shows "python_b64decode enc =
     python_b64decode (filter (\<lambda>c. c \<in> set b64_alphabet \<or> c = CHR ''='') enc)"
proof -
  from assms have "list_all (\<lambda>c. (of_char c :: nat) < 128)
      (filter (\<lambda>c. c \<in> set b64_alphabet \<or> c = CHR ''='') enc)"
    by (simp add: list_all_iff)
  with assms show ?thesis
    by (simp add: python_b64decode_def a2b_base64_skips)
qed

text \<open>
  C4, as the code has it. \<open>process_proxy_command\<close> raises a \<open>CommandException\<close> and leaves the
  server as it was, so that no inner command runs, in exactly these cases: with the
  formatting guidance as text when the message has no line feed at all, when the header
  (the text before the first line feed) does not split into four tokens, and when the
  protocol is not \<open>dsa\<close>; and with \<open>Invalid signature.\<close> followed by the decoder's message
  when \<open>base64.b64decode\<close> raises on the signature field. Through \<open>process_command\<close> the
  exception becomes the reply: nothing escapes. Every other message is decoded as an
  envelope: whatever follows the first line feed, stripped of line feeds and carriage
  returns at both ends, is the inner command, also when it is empty. The decoder itself
  skips the characters of an ASCII signature field that are outside the base64 alphabet
  and decodes what is left.
\<close>

theorem malformed_envelope_recoverable:
  fixes guidance :: string
  defines "guidance \<equiv> ''Invalid formatting; expected `proxy dsa PROXIED_ACCOUNT SIGNATURE` '' @
             ''followed by another command on the next line.''"
  shows
    "(CHR 0x0A \<notin> set message \<longrightarrow>
        process_proxy_command L author message server = (Inl (CommandException guidance), server)) \<and>
     (split_once (CHR 0x0A) message = [header, body] \<and> length (split_whitespace header) \<noteq> 4 \<longrightarrow>
        process_proxy_command L author message server = (Inl (CommandException guidance), server)) \<and>
     (split_once (CHR 0x0A) message = [header, body] \<and>
      split_whitespace header = [marker, protocol, name, enc] \<and> protocol \<noteq> ''dsa'' \<longrightarrow>
        process_proxy_command L author message server = (Inl (CommandException guidance), server)) \<and>
     (split_once (CHR 0x0A) message = [header, body] \<and>
      split_whitespace header = [marker, ''dsa'', name, enc] \<and> b64decode L enc = Inl e \<longrightarrow>
        process_proxy_command L author message server =
          (Inl (CommandException (''Invalid signature. '' @ e)), server)) \<and>
     (split_whitespace message = ''proxy'' # rest \<and>
      process_proxy_command L author message server = (Inl (CommandException reply), server) \<longrightarrow>
        process_command L author message server = (reply, server)) \<and>
     (split_once (CHR 0x0A) message = [header, body] \<and>
      split_whitespace header = [marker, ''dsa'', name, enc] \<and> b64decode L enc = Inr signature \<longrightarrow>
        parse_proxy_command L message =
          Inr (name, signature, strip_chars [CHR 0x0A, CHR 0x0D] body)) \<and>
     (list_all (\<lambda>c. (of_char c :: nat) < 128) enc \<longrightarrow>
        python_b64decode enc =
          python_b64decode (filter (\<lambda>c. c \<in> set b64_alphabet \<or> c = CHR ''='') enc))"
proof (intro conjI impI)
  assume "CHR 0x0A \<notin> set message"
  then have "parse_proxy_command L message = Inl (CommandException guidance)"
    by (simp add: parse_proxy_command_def parse_impl_cases(1) guidance_def)
  then show "process_proxy_command L author message server = (Inl (CommandException guidance), server)"
    by (rule process_proxy_command_malformed)
next
  assume "split_once (CHR 0x0A) message = [header, body] \<and> length (split_whitespace header) \<noteq> 4"
  then have "parse_proxy_command L message = Inl (CommandException guidance)"
    using parse_impl_cases(2) [of message header body L]
    by (simp add: parse_proxy_command_def guidance_def)
  then show "process_proxy_command L author message server = (Inl (CommandException guidance), server)"
    by (rule process_proxy_command_malformed)
next
  assume "split_once (CHR 0x0A) message = [header, body] \<and>
      split_whitespace header = [marker, protocol, name, enc] \<and> protocol \<noteq> ''dsa''"
  then have "parse_proxy_command L message = Inl (CommandException guidance)"
    using parse_impl_cases(3) [of message header body marker protocol name enc L]
    by (simp add: parse_proxy_command_def guidance_def)
  then show "process_proxy_command L author message server = (Inl (CommandException guidance), server)"
    by (rule process_proxy_command_malformed)
next
  assume "split_once (CHR 0x0A) message = [header, body] \<and>
      split_whitespace header = [marker, ''dsa'', name, enc] \<and> b64decode L enc = Inl e"
  then have "parse_proxy_command L message = Inl (CommandException (''Invalid signature. '' @ e))"
    using parse_impl_cases(4) [of message header body marker name enc L e]
    by (simp add: parse_proxy_command_def)
  then show "process_proxy_command L author message server =
      (Inl (CommandException (''Invalid signature. '' @ e)), server)"
    by (rule process_proxy_command_malformed)
next
  assume "split_whitespace message = ''proxy'' # rest \<and>
      process_proxy_command L author message server = (Inl (CommandException reply), server)"
  then show "process_command L author message server = (reply, server)"
    by (simp add: process_command_proxy)
next
  assume "split_once (CHR 0x0A) message = [header, body] \<and>
      split_whitespace header = [marker, ''dsa'', name, enc] \<and> b64decode L enc = Inr signature"
  then show "parse_proxy_command L message =
      Inr (name, signature, strip_chars [CHR 0x0A, CHR 0x0D] body)"
    using parse_impl_cases(5) [of message header body marker name enc L signature]
    by (simp add: parse_proxy_command_def)
next
  assume "list_all (\<lambda>c. (of_char c :: nat) < 128) enc"
  then show "python_b64decode enc =
      python_b64decode (filter (\<lambda>c. c \<in> set b64_alphabet \<or> c = CHR ''='') enc)"
    by (rule python_b64decode_skips)
qed

lemma example_lines:
  "CHR 0x0A \<notin> set ''proxy dsa alice c2ln''"
  "split_once (CHR 0x0A) ''proxy dsa alice\<newline>help'' = [''proxy dsa alice'', ''help'']"
  "split_once (CHR 0x0A) ''proxy rsa alice c2ln\<newline>help'' = [''proxy rsa alice c2ln'', ''help'']"
  "split_once (CHR 0x0A) ''proxy dsa alice c2l\<newline>help'' = [''proxy dsa alice c2l'', ''help'']"
  "split_once (CHR 0x0A) ''proxy dsa alice azJoZWxw\<newline>help\<newline>'' = [''proxy dsa alice azJoZWxw'', ''help\<newline>'']"
  "split_once (CHR 0x0A) ''proxy dsa alice azJ0cmFuc2Zl!ciAxMCBib2I=\<newline>transfer 10 bob'' =
     [''proxy dsa alice azJ0cmFuc2Zl!ciAxMCBib2I='', ''transfer 10 bob'']"
  "split_once (CHR 0x0A) ''proxy dsa alice azE=\<newline>'' = [''proxy dsa alice azE='', []]"
  by code_simp+

lemma example_headers:
  "split_whitespace ''proxy dsa alice'' = [''proxy'', ''dsa'', ''alice'']"
  "split_whitespace ''proxy rsa alice c2ln'' = [''proxy'', ''rsa'', ''alice'', ''c2ln'']"
  "split_whitespace ''proxy dsa alice c2l'' = [''proxy'', ''dsa'', ''alice'', ''c2l'']"
  "split_whitespace ''proxy dsa alice azJoZWxw'' = [''proxy'', ''dsa'', ''alice'', ''azJoZWxw'']"
  "split_whitespace ''proxy dsa alice azJ0cmFuc2Zl!ciAxMCBib2I='' =
     [''proxy'', ''dsa'', ''alice'', ''azJ0cmFuc2Zl!ciAxMCBib2I='']"
  "split_whitespace ''proxy dsa alice azE='' = [''proxy'', ''dsa'', ''alice'', ''azE='']"
  by code_simp+

lemma example_decoding:
  "b64decode example_lib ''c2l'' = Inl ''Incorrect padding''"
  "b64decode example_lib ''azJoZWxw'' = Inr ''k2help''"
  "b64decode example_lib ''azJ0cmFuc2Zl!ciAxMCBib2I='' = Inr ''k2transfer 10 bob''"
  "b64decode example_lib ''azE='' = Inr ''k1''"
  "strip_chars [CHR 0x0A, CHR 0x0D] ''help\<newline>'' = ''help''"
  "strip_chars [CHR 0x0A, CHR 0x0D] ''transfer 10 bob'' = ''transfer 10 bob''"
  "strip_chars [CHR 0x0A, CHR 0x0D] [] = []"
  "list_all (\<lambda>c. (of_char c :: nat) < 128) ''azJ0cmFuc2Zl!ciAxMCBib2I=''"
  "filter (\<lambda>c. c \<in> set b64_alphabet \<or> c = CHR ''='') ''azJ0cmFuc2Zl!ciAxMCBib2I='' =
     ''azJ0cmFuc2ZlciAxMCBib2I=''"
  "encode_utf8 [] = []"
  by code_simp+

theorem malformed_envelope_recoverable_witness:
  "CHR 0x0A \<notin> set ''proxy dsa alice c2ln'' \<and>
   process_proxy_command example_lib ''alice'' ''proxy dsa alice c2ln'' example_server =
     (Inl (CommandException (''Invalid formatting; expected `proxy dsa PROXIED_ACCOUNT SIGNATURE` '' @
        ''followed by another command on the next line.'')), example_server) \<and>
   process_command example_lib ''alice'' ''proxy dsa alice c2ln'' example_server =
     (''Invalid formatting; expected `proxy dsa PROXIED_ACCOUNT SIGNATURE` '' @
      ''followed by another command on the next line.'', example_server) \<and>
   length (split_whitespace ''proxy dsa alice'') \<noteq> 4 \<and>
   process_proxy_command example_lib ''alice'' ''proxy dsa alice\<newline>help'' example_server =
     (Inl (CommandException (''Invalid formatting; expected `proxy dsa PROXIED_ACCOUNT SIGNATURE` '' @
        ''followed by another command on the next line.'')), example_server) \<and>
   split_whitespace ''proxy rsa alice c2ln'' = [''proxy'', ''rsa'', ''alice'', ''c2ln''] \<and>
   process_proxy_command example_lib ''alice'' ''proxy rsa alice c2ln\<newline>help'' example_server =
     (Inl (CommandException (''Invalid formatting; expected `proxy dsa PROXIED_ACCOUNT SIGNATURE` '' @
        ''followed by another command on the next line.'')), example_server) \<and>
   b64decode example_lib ''c2l'' = Inl ''Incorrect padding'' \<and>
   process_proxy_command example_lib ''alice'' ''proxy dsa alice c2l\<newline>help'' example_server =
     (Inl (CommandException ''Invalid signature. Incorrect padding''), example_server) \<and>
   process_command example_lib ''alice'' ''proxy dsa alice c2l\<newline>help'' example_server =
     (''Invalid signature. Incorrect padding'', example_server) \<and>
   b64decode example_lib ''azJoZWxw'' = Inr ''k2help'' \<and>
   parse_proxy_command example_lib ''proxy dsa alice azJoZWxw\<newline>help\<newline>'' =
     Inr (''alice'', ''k2help'', ''help'') \<and>
   list_all (\<lambda>c. (of_char c :: nat) < 128) ''azJ0cmFuc2Zl!ciAxMCBib2I='' \<and>
   python_b64decode ''azJ0cmFuc2Zl!ciAxMCBib2I='' = python_b64decode ''azJ0cmFuc2ZlciAxMCBib2I=''"
  using
    malformed_envelope_recoverable [where message = "''proxy dsa alice c2ln''" and L = example_lib
        and author = "''alice''" and server = example_server and header = "[]" and body = "[]"
        and marker = "[]" and protocol = "[]" and name = "[]" and enc = "[]" and e = "[]"
        and rest = "[''dsa'', ''alice'', ''c2ln'']"
        and reply = "''Invalid formatting; expected `proxy dsa PROXIED_ACCOUNT SIGNATURE` followed by another command on the next line.''"
        and signature = "[]", THEN conjunct1]
    malformed_envelope_recoverable [where message = "''proxy dsa alice c2ln''" and L = example_lib
        and author = "''alice''" and server = example_server and header = "[]" and body = "[]"
        and marker = "[]" and protocol = "[]" and name = "[]" and enc = "[]" and e = "[]"
        and rest = "[''dsa'', ''alice'', ''c2ln'']"
        and reply = "''Invalid formatting; expected `proxy dsa PROXIED_ACCOUNT SIGNATURE` followed by another command on the next line.''"
        and signature = "[]", THEN conjunct2, THEN conjunct2, THEN conjunct2, THEN conjunct2, THEN conjunct1]
    malformed_envelope_recoverable [where message = "''proxy dsa alice\<newline>help''"
        and L = example_lib and author = "''alice''" and server = example_server
        and header = "''proxy dsa alice''" and body = "''help''" and marker = "[]"
        and protocol = "[]" and name = "[]" and enc = "[]" and e = "[]" and rest = "[]"
        and reply = "[]" and signature = "[]", THEN conjunct2, THEN conjunct1]
    malformed_envelope_recoverable [where message = "''proxy rsa alice c2ln\<newline>help''"
        and L = example_lib and author = "''alice''" and server = example_server
        and header = "''proxy rsa alice c2ln''" and body = "''help''" and marker = "''proxy''"
        and protocol = "''rsa''" and name = "''alice''" and enc = "''c2ln''" and e = "[]"
        and rest = "[]" and reply = "[]" and signature = "[]", THEN conjunct2, THEN conjunct2, THEN conjunct1]
    malformed_envelope_recoverable [where message = "''proxy dsa alice c2l\<newline>help''"
        and L = example_lib and author = "''alice''" and server = example_server
        and header = "''proxy dsa alice c2l''" and body = "''help''" and marker = "''proxy''"
        and protocol = "[]" and name = "''alice''" and enc = "''c2l''"
        and e = "''Incorrect padding''" and rest = "[''dsa'', ''alice'', ''c2l'', ''help'']"
        and reply = "''Invalid signature. Incorrect padding''" and signature = "[]", THEN conjunct2, THEN conjunct2, THEN conjunct2, THEN conjunct1]
    malformed_envelope_recoverable [where message = "''proxy dsa alice c2l\<newline>help''"
        and L = example_lib and author = "''alice''" and server = example_server
        and header = "''proxy dsa alice c2l''" and body = "''help''" and marker = "''proxy''"
        and protocol = "[]" and name = "''alice''" and enc = "''c2l''"
        and e = "''Incorrect padding''" and rest = "[''dsa'', ''alice'', ''c2l'', ''help'']"
        and reply = "''Invalid signature. Incorrect padding''" and signature = "[]", THEN conjunct2, THEN conjunct2, THEN conjunct2, THEN conjunct2, THEN conjunct1]
    malformed_envelope_recoverable [where 
        message = "''proxy dsa alice azJoZWxw\<newline>help\<newline>''" and L = example_lib
        and author = "''alice''" and server = example_server
        and header = "''proxy dsa alice azJoZWxw''" and body = "''help\<newline>''"
        and marker = "''proxy''" and protocol = "[]" and name = "''alice''"
        and enc = "''azJoZWxw''" and e = "[]" and rest = "[]" and reply = "[]"
        and signature = "''k2help''", THEN conjunct2, THEN conjunct2, THEN conjunct2, THEN conjunct2, THEN conjunct2, THEN conjunct1]
    malformed_envelope_recoverable [where message = "[]" and L = example_lib
        and author = "''alice''" and server = example_server and header = "[]" and body = "[]"
        and marker = "[]" and protocol = "[]" and name = "[]"
        and enc = "''azJ0cmFuc2Zl!ciAxMCBib2I=''" and e = "[]" and rest = "[]" and reply = "[]"
        and signature = "[]", THEN conjunct2, THEN conjunct2, THEN conjunct2, THEN conjunct2, THEN conjunct2, THEN conjunct2,
        THEN mp, OF example_decoding(8), unfolded example_decoding(9)]
  by (simp add: example_lines example_headers example_decoding example_proxy_tokens)

text \<open>
  The claim of C4 as the specification states it fails on two kinds of message. A signature
  field that is not valid base64, here with the character \<open>!\<close> in it, is not rejected:
  the decoder skips the character, the signature verifies, and the inner transfer is
  carried out. And a message that is one header line ended by a line feed, with no body
  after it, is not rejected either: it is an envelope with an empty inner command, which
  is dispatched as the proxied account and answered with the greeting for an empty message.
\<close>

theorem malformed_envelope_counterexample:
  "split_once (CHR 0x0A) ''proxy dsa alice azJ0cmFuc2Zl!ciAxMCBib2I=\<newline>transfer 10 bob'' =
     [''proxy dsa alice azJ0cmFuc2Zl!ciAxMCBib2I='', ''transfer 10 bob''] \<and>
   split_whitespace ''proxy dsa alice azJ0cmFuc2Zl!ciAxMCBib2I='' =
     [''proxy'', ''dsa'', ''alice'', ''azJ0cmFuc2Zl!ciAxMCBib2I=''] \<and>
   CHR ''!'' \<in> set ''azJ0cmFuc2Zl!ciAxMCBib2I='' \<and>
   CHR ''!'' \<notin> set b64_alphabet \<and>
   b64decode example_lib ''azJ0cmFuc2Zl!ciAxMCBib2I='' = Inr ''k2transfer 10 bob'' \<and>
   process_proxy_command example_lib ''carol''
       ''proxy dsa alice azJ0cmFuc2Zl!ciAxMCBib2I=\<newline>transfer 10 bob'' example_server =
     (Inr ''Transfer performed successfully.'',
      example_server\<lparr>requests := [Can_transfer alice bob 10, Transfer alice alice bob 10],
        verifications :=
          [(''k1'', ''transfer 10 bob'', ''k2transfer 10 bob''),
           (''k2'', ''transfer 10 bob'', ''k2transfer 10 bob'')]\<rparr>) \<and>
   split_once (CHR 0x0A) ''proxy dsa alice azE=\<newline>'' = [''proxy dsa alice azE='', []] \<and>
   parse_proxy_command example_lib ''proxy dsa alice azE=\<newline>'' = Inr (''alice'', ''k1'', []) \<and>
   process_proxy_command example_lib ''carol'' ''proxy dsa alice azE=\<newline>'' example_server =
     (Inr (''Hi alice! You sent me an empty message. Here's a list of commands I do understand:'' @
           [CHR 0x0A, CHR 0x0A] @
           list_commands_as_markdown ''alice'' (example_server\<lparr>verifications := [(''k1'', [], ''k1'')]\<rparr>)),
      example_server\<lparr>verifications := [(''k1'', [], ''k1'')]\<rparr>)"
proof -
  have p1: "parse_proxy_command example_lib
      ''proxy dsa alice azJ0cmFuc2Zl!ciAxMCBib2I=\<newline>transfer 10 bob'' =
      Inr (''alice'', ''k2transfer 10 bob'', ''transfer 10 bob'')"
    using parse_impl_cases(5) [OF example_lines(6) example_headers(5) example_decoding(3)]
    by (simp add: parse_proxy_command_def example_decoding)
  have r1: "process_proxy_command example_lib ''carol''
       ''proxy dsa alice azJ0cmFuc2Zl!ciAxMCBib2I=\<newline>transfer 10 bob'' example_server =
     (Inr ''Transfer performed successfully.'',
      example_server\<lparr>requests := [Can_transfer alice bob 10, Transfer alice alice bob 10],
        verifications :=
          [(''k1'', ''transfer 10 bob'', ''k2transfer 10 bob''),
           (''k2'', ''transfer 10 bob'', ''k2transfer 10 bob'')]\<rparr>)"
    unfolding process_proxy_command_unfold [OF p1 example_server_fields(1)] verify_keys_tried
    by (simp add: example_lib_fields example_account_fields example_server_fields example_compose
          example_inner_transfer)
  have p2: "parse_proxy_command example_lib ''proxy dsa alice azE=\<newline>'' = Inr (''alice'', ''k1'', [])"
    using parse_impl_cases(5) [OF example_lines(7) example_headers(6) example_decoding(4)]
    by (simp add: parse_proxy_command_def example_decoding)
  have empty: "process_command example_lib ''alice'' [] s =
     (''Hi alice! You sent me an empty message. Here's a list of commands I do understand:'' @
      [CHR 0x0A, CHR 0x0A] @ list_commands_as_markdown ''alice'' s, s)" for s
    by (subst process_command.simps) (simp add: split_whitespace_def)
  have r2: "process_proxy_command example_lib ''carol'' ''proxy dsa alice azE=\<newline>'' example_server =
     (Inr (''Hi alice! You sent me an empty message. Here's a list of commands I do understand:'' @
           [CHR 0x0A, CHR 0x0A] @
           list_commands_as_markdown ''alice'' (example_server\<lparr>verifications := [(''k1'', [], ''k1'')]\<rparr>)),
      example_server\<lparr>verifications := [(''k1'', [], ''k1'')]\<rparr>)"
    unfolding process_proxy_command_unfold [OF p2 example_server_fields(1)] verify_keys_tried
    by (simp add: example_lib_fields example_account_fields example_server_fields example_decoding
          empty)
  have bang: "CHR ''!'' \<notin> set b64_alphabet" by (simp add: b64_alphabet_def)
  show ?thesis
    using r1 r2 p2 bang
    by (simp add: example_lines example_headers example_decoding)
qed

end
